theory Spec2Isabelle
  imports Main "HOL-Library.Word"
begin

unbundle bit_operations_syntax

section \<open>JavaScript values used by main.js\<close>

text \<open>
  A JavaScript number as main.js meets it: an integer, or Not-a-Number (the result of a
  failed \<^verbatim>\<open>parseInt\<close>). The integer is the mathematical one (the \<^verbatim>\<open>mathInt\<close> of
  the language definition). A double holds every integer of magnitude up to \<open>2 ^ 53\<close>
  exactly, and there \<^verbatim>\<open>parseInt\<close>, \<^verbatim>\<open>+\<close> and the conversion to a string are what
  is modelled here; beyond that magnitude JavaScript rounds (and prints in exponent
  form from \<open>10 ^ 21\<close>), which the model does not follow. The properties below
  that state the value of a numeral or of a sum are therefore stated for magnitudes up
  to \<open>2 ^ 53\<close> (\<open>exactNumber\<close>). Negative zero is \<open>Num 0\<close>: \<^verbatim>\<open>-0 === 0\<close> and the
  program never divides.

  A string is a list of code units below 256, one \<open>char\<close> each. Conversion to upper
  case is the one of the ASCII letters; the addresses, function codes and tokens of the
  program are ASCII.
\<close>

datatype number = Num int | NaN

fun plus_number :: "number \<Rightarrow> number \<Rightarrow> number" where
  "plus_number (Num a) (Num b) = Num (a + b)"
| "plus_number _ _ = NaN"

definition isWhiteSpace :: "char \<Rightarrow> bool" where
  "isWhiteSpace c = (of_char c \<in> {9, 10, 11, 12, 13, 32, 160 :: nat})"

definition trim :: "string \<Rightarrow> string" where
  "trim s = rev (dropWhile isWhiteSpace (rev (dropWhile isWhiteSpace s)))"

definition startsWith :: "string \<Rightarrow> string \<Rightarrow> bool" where
  "startsWith s p = (take (length p) s = p)"

definition toUpperChar :: "char \<Rightarrow> char" where
  "toUpperChar c =
     (let n = of_char c :: nat in if 97 \<le> n \<and> n \<le> 122 then char_of (n - 32) else c)"

definition toUpperCase :: "string \<Rightarrow> string" where
  "toUpperCase s = map toUpperChar s"

text \<open>
  Lower case, for every code unit below 256: the ASCII capitals and the capitals of
  Latin-1 (\<open>0xC0\<close> to \<open>0xDE\<close>, the multiplication sign \<open>0xD7\<close> apart).
\<close>

definition toLowerChar :: "char \<Rightarrow> char" where
  "toLowerChar c =
     (let n = of_char c :: nat in
      if (65 \<le> n \<and> n \<le> 90) \<or> (192 \<le> n \<and> n \<le> 222 \<and> n \<noteq> 215)
      then char_of (n + 32) else c)"

definition toLowerCase :: "string \<Rightarrow> string" where
  "toLowerCase s = map toLowerChar s"

definition padStart :: "nat \<Rightarrow> char \<Rightarrow> string \<Rightarrow> string" where
  "padStart n c s = replicate (n - length s) c @ s"

text \<open>\<^verbatim>\<open>s.replace(pat, rep)\<close> with a string pattern: the first occurrence only.\<close>

fun replaceFirst :: "string \<Rightarrow> string \<Rightarrow> string \<Rightarrow> string" where
  "replaceFirst pat rep [] = (if pat = [] then rep else [])"
| "replaceFirst pat rep (c # cs) =
     (if startsWith (c # cs) pat then rep @ drop (length pat) (c # cs)
      else c # replaceFirst pat rep cs)"

text \<open>
  \<^verbatim>\<open>s.split(/\s+/)\<close>: the pieces between maximal runs of white space; a run at either
  end leaves an empty piece there, and the empty string gives one empty piece.
\<close>

function splitFrom :: "string \<Rightarrow> string \<Rightarrow> string list" where
  "splitFrom acc [] = [rev acc]"
| "splitFrom acc (c # cs) =
     (if isWhiteSpace c then rev acc # splitFrom [] (dropWhile isWhiteSpace cs)
      else splitFrom (c # acc) cs)"
  by pat_completeness auto
termination
  by (relation "measure (\<lambda>(acc, s). length s)")
     (auto simp: length_dropWhile_le less_Suc_eq_le)

definition splitWhitespace :: "string \<Rightarrow> string list" where
  "splitWhitespace s = splitFrom [] s"

subsection \<open>Digits\<close>

definition digitValue :: "char \<Rightarrow> nat option" where
  "digitValue c =
     (let n = of_char c :: nat in
      if 48 \<le> n \<and> n \<le> 57 then Some (n - 48)
      else if 97 \<le> n \<and> n \<le> 122 then Some (n - 87)
      else if 65 \<le> n \<and> n \<le> 90 then Some (n - 55)
      else None)"

definition radixDigit :: "nat \<Rightarrow> char \<Rightarrow> bool" where
  "radixDigit R c = (case digitValue c of None \<Rightarrow> False | Some d \<Rightarrow> d < R)"

definition digitsValue :: "nat \<Rightarrow> string \<Rightarrow> nat" where
  "digitsValue R Z = foldl (\<lambda>acc c. acc * R + the (digitValue c)) 0 Z"

definition digitChar :: "nat \<Rightarrow> char" where
  "digitChar d = ''0123456789abcdefghijklmnopqrstuvwxyz'' ! d"

text \<open>
  \<^verbatim>\<open>parseInt(string, radix)\<close> for a radix given as an integer: leading white space is
  skipped, a sign is read, with radix 16 (or 0) a leading \<^verbatim>\<open>0x\<close>/\<^verbatim>\<open>0X\<close> is dropped, the
  longest run of digits of the radix is the numeral, and an empty run is Not-a-Number.
\<close>

definition parseInt :: "string \<Rightarrow> nat \<Rightarrow> number" where
  "parseInt string radix =
     (let S = dropWhile isWhiteSpace string;
          sign = (if S \<noteq> [] \<and> hd S = CHR ''-'' then - 1 else 1 :: int);
          S = (if S \<noteq> [] \<and> (hd S = CHR ''+'' \<or> hd S = CHR ''-'') then tl S else S);
          stripPrefix = (radix = 0 \<or> radix = 16);
          R = (if radix = 0 then 10 else radix)
      in if R < 2 \<or> 36 < R then NaN
         else
           let hex = (stripPrefix \<and> (startsWith S ''0x'' \<or> startsWith S ''0X''));
               S = (if hex then drop 2 S else S);
               R = (if hex then 16 else R);
               Z = takeWhile (radixDigit R) S
           in if Z = [] then NaN else Num (sign * int (digitsValue R Z)))"

text \<open>
  \<^verbatim>\<open>n.toString(radix)\<close> for an integer and a radix from 2 to 36: the numeral in
  positional notation (which is what JavaScript prints below \<open>10 ^ 21\<close>), with a minus
  sign for a negative integer, and \<open>NaN\<close> for Not-a-Number.
\<close>

function natToString :: "nat \<Rightarrow> nat \<Rightarrow> string" where
  "natToString R n =
     (if R < 2 \<or> n < R then [digitChar n]
      else natToString R (n div R) @ [digitChar (n mod R)])"
  by pat_completeness auto
termination
  by (relation "measure snd") auto

declare natToString.simps [simp del]

fun numberToString :: "number \<Rightarrow> nat \<Rightarrow> string" where
  "numberToString NaN R = ''NaN''"
| "numberToString (Num n) R =
     (if n < 0 then CHR ''-'' # natToString R (nat (- n)) else natToString R (nat n))"

text \<open>\<^verbatim>\<open>ToInt32\<close>, the conversion every bitwise operator applies to its operands.\<close>

fun toInt32 :: "number \<Rightarrow> int" where
  "toInt32 NaN = 0"
| "toInt32 (Num n) = (n + 2 ^ 31) mod 2 ^ 32 - 2 ^ 31"

section \<open>config.js\<close>

record config =
  DEFAULT_QUANTITY :: number
  ENDIANNESS :: string

definition config_js :: config where
  "config_js = \<lparr>DEFAULT_QUANTITY = Num 1, ENDIANNESS = ''BIG''\<rparr>"

section \<open>main.js: helpers\<close>

definition FUNCTION_NAMES :: "string \<rightharpoonup> string" where
  "FUNCTION_NAMES = map_of
     [(''0x01'', ''Read Coils''),
      (''0x02'', ''Read Discrete Inputs''),
      (''0x03'', ''Read Holding Registers''),
      (''0x04'', ''Read Input Registers''),
      (''0x0F'', ''Write Multiple Coils''),
      (''0x10'', ''Write Multiple Holding Registers'')]"

definition parseValue :: "string \<Rightarrow> number" where
  "parseValue val =
     (if startsWith val ''b'' then parseInt (drop 1 val) 2
      else if startsWith val ''0x'' \<or> startsWith val ''0X'' then parseInt val 16
      else parseInt val 10)"

definition convertEndianness :: "string \<Rightarrow> number \<Rightarrow> number" where
  "convertEndianness endianness value =
     (if toUpperCase endianness = ''LITTLE'' then
        let lowerByte = toInt32 value AND 0xff;
            upperByte = drop_bit 8 (toInt32 value) AND 0xff
        in Num (push_bit 8 lowerByte OR upperByte)
      else value)"

definition toHex :: "number \<Rightarrow> string" where
  "toHex num = ''0x'' @ toUpperCase (padStart 4 CHR ''0'' (numberToString num 16))"

fun group4 :: "string \<Rightarrow> string" where
  "group4 (a # b # c # d # rest) = a # b # c # d # CHR '' '' # group4 rest"
| "group4 rest = rest"

definition toBinaryWithSpaces :: "number \<Rightarrow> string" where
  "toBinaryWithSpaces num = group4 (padStart 16 CHR ''0'' (numberToString num 2))"

definition normalizeAddress :: "string \<Rightarrow> string" where
  "normalizeAddress address = replaceFirst ''0X'' ''0x'' (toUpperCase address)"

text \<open>
  register-names.json: per register class an object from address keys to names, or
  \<^verbatim>\<open>false\<close> (here \<open>None\<close>) to disable the class. The file is data of the installation;
  the tables are a parameter.
\<close>

record names =
  DISCRETE_INPUT_NAMES :: "(string \<rightharpoonup> string) option"
  COIL_NAMES :: "(string \<rightharpoonup> string) option"
  HOLDING_REGISTER_NAMES :: "(string \<rightharpoonup> string) option"
  INPUT_REGISTER_NAMES :: "(string \<rightharpoonup> string) option"

text \<open>
  \<^verbatim>\<open>if (T && T[addressHex]) return T[addressHex]\<close>: a disabled table, a missing key and
  an empty name are all falsy, and then the \<^verbatim>\<open>switch\<close> falls to \<^verbatim>\<open>return ""\<close>.
\<close>

definition truthyName :: "(string \<rightharpoonup> string) option \<Rightarrow> string \<Rightarrow> string option" where
  "truthyName T addressHex =
     (case T of
        None \<Rightarrow> None
      | Some t \<Rightarrow> (case t addressHex of
                    None \<Rightarrow> None
                  | Some n \<Rightarrow> if n = [] then None else Some n))"

definition getRegisterName :: "names \<Rightarrow> string \<Rightarrow> string \<Rightarrow> string" where
  "getRegisterName nm functionCode addressHex0 =
     (let addressHex = normalizeAddress addressHex0 in
      if functionCode = ''0x01'' then
        (case truthyName (COIL_NAMES nm) addressHex of Some n \<Rightarrow> n | None \<Rightarrow> [])
      else if functionCode = ''0x02'' then
        (case truthyName (DISCRETE_INPUT_NAMES nm) addressHex of Some n \<Rightarrow> n | None \<Rightarrow> [])
      else if functionCode = ''0x03'' then
        (case truthyName (HOLDING_REGISTER_NAMES nm) addressHex of Some n \<Rightarrow> n | None \<Rightarrow> [])
      else if functionCode = ''0x04'' then
        (case truthyName (INPUT_REGISTER_NAMES nm) addressHex of Some n \<Rightarrow> n | None \<Rightarrow> [])
      else [])"

section \<open>The Modbus client and the console\<close>

text \<open>
  The client of modbus-serial is the transport collaborator: six primitives, each either
  rejecting with an error (\<open>Inl\<close> its message) or resolving (\<open>Inr\<close>; for a read, the
  array \<^verbatim>\<open>data.data\<close>). What the program sends is recorded as a list of calls, what it
  prints as a list of console events.
\<close>

datatype call =
    ReadCoils number number
  | ReadDiscreteInputs number number
  | ReadHoldingRegisters number number
  | ReadInputRegisters number number
  | WriteCoils number "bool list"
  | WriteRegisters number "number list"

record client =
  readCoils :: "number \<Rightarrow> number \<Rightarrow> string + bool list"
  readDiscreteInputs :: "number \<Rightarrow> number \<Rightarrow> string + bool list"
  readHoldingRegisters :: "number \<Rightarrow> number \<Rightarrow> string + number list"
  readInputRegisters :: "number \<Rightarrow> number \<Rightarrow> string + number list"
  writeCoils :: "number \<Rightarrow> bool list \<Rightarrow> string + unit"
  writeRegisters :: "number \<Rightarrow> number list \<Rightarrow> string + unit"

datatype row =
    BitRow (Reg: string) (Addr: string) (Name: string) (Value: bool)
  | RegisterRow (Reg: string) (Addr: string) (Name: string)
      (Decimal: number) (Hex: string) (Binary: string)

datatype event =
    ConsoleLog "string list"
  | ConsoleError "string list"
  | ConsoleTable "row list"

record outcome =
  calls :: "call list"
  console :: "event list"

text \<open>\<^verbatim>\<open>xs.slice(0, k)\<close>: a negative \<open>k\<close> counts from the end, Not-a-Number is 0.\<close>

fun slice0 :: "'a list \<Rightarrow> number \<Rightarrow> 'a list" where
  "slice0 xs NaN = []"
| "slice0 xs (Num k) =
     (if k < 0 then take (nat (int (length xs) + k)) xs else take (nat k) xs)"

section \<open>main.js: handleRead\<close>

text \<open>
  Lines 190 to 203: the answer to the prompt (trimmed by \<^verbatim>\<open>askQuestion\<close>) is split,
  a missing or empty piece is replaced by its default, and both pieces are parsed.
\<close>

definition readPrompt :: "config \<Rightarrow> string \<Rightarrow> number \<times> number" where
  "readPrompt cfg answer =
     (let addressQuantity = trim answer;
          parts = splitWhitespace addressQuantity;
          addrStr = (if 0 < length parts \<and> parts ! 0 \<noteq> [] then parts ! 0 else ''0'');
          qtyStr = (if 1 < length parts \<and> parts ! 1 \<noteq> [] then parts ! 1
                    else numberToString (DEFAULT_QUANTITY cfg) 10)
      in (parseValue addrStr, parseValue qtyStr))"

text \<open>Line 225: the request repeated to the user.\<close>

definition requestEcho :: "string \<Rightarrow> number \<Rightarrow> number \<Rightarrow> event" where
  "requestEcho functionCode quantity startAddress =
     ConsoleLog [CHR 0x22 # (case FUNCTION_NAMES functionCode of
                                Some n \<Rightarrow> n | None \<Rightarrow> ''undefined'')
                 @ CHR 0x22 # '' '' @ numberToString quantity 10
                 @ '' registers from '' @ toHex startAddress @ ''.'']"

text \<open>Lines 235 to 247: the row of one coil or discrete input.\<close>

definition bitRow :: "names \<Rightarrow> string \<Rightarrow> number \<Rightarrow> nat \<times> bool \<Rightarrow> row" where
  "bitRow nm functionCode startAddress = (\<lambda>(index, boolVal).
     let addressDec = plus_number startAddress (Num (int index));
         addressHex = toHex addressDec;
         name = getRegisterName nm functionCode addressHex;
         registerPrefix = (if functionCode = ''0x01'' then ''C'' else ''DI'');
         registerID = registerPrefix @ numberToString (plus_number addressDec (Num 1)) 10
     in BitRow registerID addressHex name boolVal)"

text \<open>Lines 252 to 270: the row of one holding or input register.\<close>

definition registerRow :: "config \<Rightarrow> names \<Rightarrow> string \<Rightarrow> number \<Rightarrow> nat \<times> number \<Rightarrow> row" where
  "registerRow cfg nm functionCode startAddress = (\<lambda>(index, rawVal).
     let addressDec = plus_number startAddress (Num (int index));
         addressHex = toHex addressDec;
         name = getRegisterName nm functionCode addressHex;
         actualValue = convertEndianness (ENDIANNESS cfg) rawVal;
         registerPrefix = (if functionCode = ''0x03'' then ''HR'' else ''IR'');
         registerID = registerPrefix @ numberToString (plus_number addressDec (Num 1)) 10
     in RegisterRow registerID addressHex name actualValue
          (toHex actualValue) (toBinaryWithSpaces actualValue))"

text \<open>Lines 231 to 272: the table printed for the data of a successful read.\<close>

definition readTable ::
  "config \<Rightarrow> names \<Rightarrow> string \<Rightarrow> number \<Rightarrow> number \<Rightarrow> bool list + number list \<Rightarrow> event" where
  "readTable cfg nm functionCode startAddress quantity data =
     (case data of
        Inl bools \<Rightarrow>
          ConsoleTable (map (bitRow nm functionCode startAddress)
                          (enumerate 0 (slice0 bools quantity)))
      | Inr words \<Rightarrow>
          ConsoleTable (map (registerRow cfg nm functionCode startAddress)
                          (enumerate 0 words)))"

text \<open>
  Lines 224 to 275 for one awaited read: a rejection goes to the \<^verbatim>\<open>catch\<close>, which
  prints the message; a result is echoed and tabulated.
\<close>

definition afterRead ::
  "config \<Rightarrow> names \<Rightarrow> string \<Rightarrow> number \<Rightarrow> number \<Rightarrow> call
     \<Rightarrow> string + (bool list + number list) \<Rightarrow> outcome" where
  "afterRead cfg nm functionCode startAddress quantity c result =
     (case result of
        Inl message \<Rightarrow>
          \<lparr>calls = [c], console = [ConsoleError [''Error reading data:'', message]]\<rparr>
      | Inr data \<Rightarrow>
          \<lparr>calls = [c],
           console = [requestEcho functionCode quantity startAddress,
                      readTable cfg nm functionCode startAddress quantity data]\<rparr>)"

definition handleRead :: "config \<Rightarrow> names \<Rightarrow> client \<Rightarrow> string \<Rightarrow> string \<Rightarrow> outcome" where
  "handleRead cfg nm cl functionCode answer =
     (let (startAddress, quantity) = readPrompt cfg answer in
      if functionCode = ''0x01'' then
        afterRead cfg nm functionCode startAddress quantity
          (ReadCoils startAddress quantity)
          (map_sum id Inl (readCoils cl startAddress quantity))
      else if functionCode = ''0x02'' then
        afterRead cfg nm functionCode startAddress quantity
          (ReadDiscreteInputs startAddress quantity)
          (map_sum id Inl (readDiscreteInputs cl startAddress quantity))
      else if functionCode = ''0x03'' then
        afterRead cfg nm functionCode startAddress quantity
          (ReadHoldingRegisters startAddress quantity)
          (map_sum id Inr (readHoldingRegisters cl startAddress quantity))
      else if functionCode = ''0x04'' then
        afterRead cfg nm functionCode startAddress quantity
          (ReadInputRegisters startAddress quantity)
          (map_sum id Inr (readInputRegisters cl startAddress quantity))
      else
        \<lparr>calls = [], console = [ConsoleError [''Unsupported read function code.'']]\<rparr>)"

section \<open>main.js: handleWrite\<close>

definition afterWrite :: "call \<Rightarrow> string + unit \<Rightarrow> string \<Rightarrow> outcome" where
  "afterWrite c result done =
     (case result of
        Inl message \<Rightarrow>
          \<lparr>calls = [c], console = [ConsoleError [''Error writing data:'', message]]\<rparr>
      | Inr _ \<Rightarrow> \<lparr>calls = [c], console = [ConsoleLog [done]]\<rparr>)"

definition handleWrite :: "config \<Rightarrow> client \<Rightarrow> string \<Rightarrow> string \<Rightarrow> outcome" where
  "handleWrite cfg cl functionCode answer =
     (let addressValues = trim answer;
          parts = splitWhitespace addressValues
      in if length parts < 2 then
           \<lparr>calls = [],
            console = [ConsoleError [''You must provide at least an address and one value.'']]\<rparr>
         else
           let startAddress = parseValue (parts ! 0);
               values = map parseValue (drop 1 parts)
           in if functionCode = ''0x0f'' then
                let booleanVals = map (\<lambda>val. val \<noteq> Num 0) values
                in afterWrite (WriteCoils startAddress booleanVals)
                     (writeCoils cl startAddress booleanVals)
                     ''Successfully wrote multiple coils.''
              else if functionCode = ''0x10'' then
                let registerVals = map (convertEndianness (ENDIANNESS cfg)) values
                in afterWrite (WriteRegisters startAddress registerVals)
                     (writeRegisters cl startAddress registerVals)
                     ''Successfully wrote multiple holding registers.''
              else
                \<lparr>calls = [], console = [ConsoleError [''Unsupported write function code.'']]\<rparr>)"

section \<open>main.js: mainLoop\<close>

text \<open>
  Lines 338 to 365, one turn of the loop after the menu is printed: the function code
  entered (trimmed by \<^verbatim>\<open>askQuestion\<close>) is lower-cased and selects the read handler,
  the write handler, the end of the loop, or the complaint about an unrecognized code.
  The second line is the answer to the prompt of the handler that is called.
\<close>

definition dispatchFunctionCode ::
  "config \<Rightarrow> names \<Rightarrow> client \<Rightarrow> string \<Rightarrow> string \<Rightarrow> outcome" where
  "dispatchFunctionCode cfg nm cl entry answer =
     (let funcCode = toLowerCase (trim entry) in
      if funcCode = ''quit'' then
        \<lparr>calls = [], console = [ConsoleLog [''Exiting...'']]\<rparr>
      else if funcCode = ''0x01'' \<or> funcCode = ''0x02''
              \<or> funcCode = ''0x03'' \<or> funcCode = ''0x04'' then
        handleRead cfg nm cl funcCode answer
      else if funcCode = ''0x0f'' \<or> funcCode = ''0x10'' then
        handleWrite cfg cl funcCode answer
      else
        \<lparr>calls = [],
         console = [ConsoleError [''Unrecognized function code. Please try again.'']]\<rparr>)"

section \<open>Notions of the specification\<close>

text \<open>
  A number that JavaScript holds exactly as the model does: Not-a-Number, or an integer
  of magnitude at most \<open>2 ^ 53\<close>.
\<close>

fun exactNumber :: "number \<Rightarrow> bool" where
  "exactNumber NaN = True"
| "exactNumber (Num n) = (\<bar>n\<bar> \<le> 2 ^ 53)"


text \<open>An unsigned 16-bit register value: an integer from 0 to 65535.\<close>

fun inUint16 :: "number \<Rightarrow> bool" where
  "inUint16 NaN = False"
| "inUint16 (Num r) = (0 \<le> r \<and> r \<le> 65535)"

text \<open>
  The base a token selects by the parser's rules, the text its numeral is read from,
  and the longest run of digits of that base at the start of that text.
\<close>

definition tokenBase :: "string \<Rightarrow> nat" where
  "tokenBase t =
     (if startsWith t ''b'' then 2
      else if startsWith t ''0x'' \<or> startsWith t ''0X'' then 16
      else 10)"

definition tokenBody :: "string \<Rightarrow> string" where
  "tokenBody t =
     (if startsWith t ''b'' then drop 1 t
      else if startsWith t ''0x'' \<or> startsWith t ''0X'' then drop 2 t
      else t)"

definition numericPrefix :: "string \<Rightarrow> string" where
  "numericPrefix t = takeWhile (radixDigit (tokenBase t)) (tokenBody t)"

text \<open>
  The display form of an address: four hexadecimal digits, upper case, zero-padded
  (behind the prefix \<open>0x\<close>).
\<close>

definition hexDigitUpper :: "nat \<Rightarrow> char" where
  "hexDigitUpper d = ''0123456789ABCDEF'' ! d"

definition hex4 :: "nat \<Rightarrow> string" where
  "hex4 n = [hexDigitUpper (n div 4096 mod 16), hexDigitUpper (n div 256 mod 16),
             hexDigitUpper (n div 16 mod 16), hexDigitUpper (n mod 16)]"

text \<open>The name table of the register class that a read function code stands for.\<close>

definition classTable :: "names \<Rightarrow> string \<Rightarrow> (string \<rightharpoonup> string) option" where
  "classTable nm functionCode =
     (if functionCode = ''0x01'' then COIL_NAMES nm
      else if functionCode = ''0x02'' then DISCRETE_INPUT_NAMES nm
      else if functionCode = ''0x03'' then HOLDING_REGISTER_NAMES nm
      else if functionCode = ''0x04'' then INPUT_REGISTER_NAMES nm
      else None)"

section \<open>Clients and name tables used as examples\<close>

text \<open>A device that answers every read with the given data and accepts every write.\<close>

definition stubClient :: "bool list \<Rightarrow> number list \<Rightarrow> client" where
  "stubClient bools words =
     \<lparr>readCoils = (\<lambda>a q. Inr bools),
      readDiscreteInputs = (\<lambda>a q. Inr bools),
      readHoldingRegisters = (\<lambda>a q. Inr words),
      readInputRegisters = (\<lambda>a q. Inr words),
      writeCoils = (\<lambda>a v. Inr ()),
      writeRegisters = (\<lambda>a v. Inr ())\<rparr>"

text \<open>A transport on which every primitive rejects with the given message.\<close>

definition failingClient :: "string \<Rightarrow> client" where
  "failingClient message =
     \<lparr>readCoils = (\<lambda>a q. Inl message),
      readDiscreteInputs = (\<lambda>a q. Inl message),
      readHoldingRegisters = (\<lambda>a q. Inl message),
      readInputRegisters = (\<lambda>a q. Inl message),
      writeCoils = (\<lambda>a v. Inl message),
      writeRegisters = (\<lambda>a v. Inl message)\<rparr>"

definition noNames :: names where
  "noNames = \<lparr>DISCRETE_INPUT_NAMES = None, COIL_NAMES = None,
              HOLDING_REGISTER_NAMES = None, INPUT_REGISTER_NAMES = None\<rparr>"

text \<open>The holding register names of the example session in README.md.\<close>

definition readmeNames :: names where
  "readmeNames =
     \<lparr>DISCRETE_INPUT_NAMES = None, COIL_NAMES = None,
      HOLDING_REGISTER_NAMES = Some (map_of
        [(''0x0004'', ''CALIBRATE_SENSOR''),
         (''0x0005'', ''SYS_AUTOSTART_TIME''),
         (''0x0006'', ''SYS_AUTOSTOP_TIME''),
         (''0x0007'', ''SYS_SAVE_SETTINGS'')]),
      INPUT_REGISTER_NAMES = None\<rparr>"

text \<open>A table whose keys are not written in the canonical form.\<close>

definition mixedCaseNames :: names where
  "mixedCaseNames =
     \<lparr>DISCRETE_INPUT_NAMES = None, COIL_NAMES = None,
      HOLDING_REGISTER_NAMES = Some (map_of
        [(''0X0004'', ''CALIBRATE_SENSOR''),
         (''0x000a'', ''SETPOINT'')]),
      INPUT_REGISTER_NAMES = None\<rparr>"

section \<open>The endianness transform\<close>

lemma toInt32_id: "- (2 ^ 31) \<le> n \<Longrightarrow> n < 2 ^ 31 \<Longrightarrow> toInt32 (Num n) = n"
  by simp

lemma and_255_mod: "(a :: int) AND 255 = a mod 256"
proof -
  have "(a :: int) AND mask 8 = a mod 2 ^ 8"
    by (simp only: take_bit_eq_mask [symmetric] take_bit_eq_mod)
  then show ?thesis by (simp add: mask_eq_exp_minus_1)
qed

lemma shifted_or_low:
  fixes a b :: int
  assumes "0 \<le> b" "b < 256"
  shows "push_bit 8 a OR b = a * 256 + b"
proof -
  have b: "take_bit 8 b = b" using assms by (simp add: take_bit_int_eq_self)
  have "push_bit 8 a + take_bit 8 b = push_bit 8 a OR take_bit 8 b"
    by (rule disjunctive_add) (auto simp add: bit_simps)
  then show ?thesis using b by (simp add: push_bit_eq_mult)
qed

lemma little_value:
  "push_bit 8 (v AND 0xff) OR (drop_bit 8 v AND 0xff)
   = (v mod 256) * 256 + (v div 256) mod 256" for v :: int
  by (simp add: and_255_mod shifted_or_low drop_bit_eq_div)

lemma convertEndianness_LITTLE:
  "toUpperCase e = ''LITTLE'' \<Longrightarrow>
   convertEndianness e v = Num ((toInt32 v mod 256) * 256 + (toInt32 v div 256) mod 256)"
  unfolding convertEndianness_def Let_def little_value by simp

lemma convertEndianness_BIG:
  "toUpperCase e \<noteq> ''LITTLE'' \<Longrightarrow> convertEndianness e v = v"
  by (simp add: convertEndianness_def)

lemma upper_LITTLE: "toUpperCase ''LITTLE'' = ''LITTLE''"
  by (simp add: toUpperCase_def toUpperChar_def)

lemma upper_BIG: "toUpperCase ''BIG'' = ''BIG''"
  by (simp add: toUpperCase_def toUpperChar_def)

lemma swap_swap:
  fixes x :: int
  assumes "0 \<le> x" "x \<le> 65535"
  shows "((x mod 256 * 256 + x div 256 mod 256) mod 256) * 256
         + ((x mod 256 * 256 + x div 256 mod 256) div 256) mod 256 = x"
proof -
  have d: "x div 256 < 256" "0 \<le> x div 256" using assms by auto
  then have 1: "x div 256 mod 256 = x div 256" by simp
  have 2: "(x mod 256 * 256 + x div 256) mod 256 = x div 256" using d by simp
  have 3: "(x mod 256 * 256 + x div 256) div 256 = x mod 256" using d by simp
  show ?thesis unfolding 1 2 3 by simp
qed

text \<open>
  Claim C4. The endianness transform is an involution on the 16-bit values: for every
  \<open>x\<close> from 0 to 65535 and every configured mode, converting twice gives \<open>x\<close> back.
  In mode LITTLE the transform exchanges the low and the high byte, in mode BIG it is
  the identity.
\<close>

theorem convertEndianness_involution:
  assumes "0 \<le> x" and "x \<le> 65535"
  shows "convertEndianness e (convertEndianness e (Num x)) = Num x
       \<and> convertEndianness ''LITTLE'' (Num x) = Num ((x mod 256) * 256 + x div 256)
       \<and> convertEndianness ''BIG'' (Num x) = Num x"
proof -
  have id: "toInt32 (Num x) = x" using assms by simp
  let ?y = "x mod 256 * 256 + x div 256 mod 256"
  have d: "x div 256 < 256" "0 \<le> x div 256" using assms by auto
  have y: "0 \<le> ?y" "?y < 2 ^ 31"
    using d by (auto intro: add_nonneg_nonneg)
  have idy: "toInt32 (Num ?y) = ?y" using y by (intro toInt32_id) auto
  have "convertEndianness e (convertEndianness e (Num x)) = Num x"
  proof (cases "toUpperCase e = ''LITTLE''")
    case True
    show ?thesis
      unfolding convertEndianness_LITTLE [OF True] id idy
      using swap_swap [OF assms] by simp
  next
    case False
    then show ?thesis by (simp add: convertEndianness_BIG)
  qed
  moreover have "convertEndianness ''LITTLE'' (Num x) = Num ((x mod 256) * 256 + x div 256)"
    unfolding convertEndianness_LITTLE [OF upper_LITTLE] id using d by simp
  moreover have "convertEndianness ''BIG'' (Num x) = Num x"
    by (rule convertEndianness_BIG) (simp add: upper_BIG)
  ultimately show ?thesis by blast
qed

theorem convertEndianness_involution_witness:
  "convertEndianness ''LITTLE'' (convertEndianness ''LITTLE'' (Num 4660)) = Num 4660
   \<and> convertEndianness ''LITTLE'' (Num 4660) = Num (4660 mod 256 * 256 + 4660 div 256)
   \<and> convertEndianness ''BIG'' (Num 4660) = Num 4660"
proof -
  have "(0::int) \<le> 4660" and "(4660::int) \<le> 65535" by simp_all
  then show ?thesis by (rule convertEndianness_involution)
qed

text \<open>
  Claim C8, as stated: whatever the mode and the non-negative integer given, the value
  produced by the endianness transform lies between 0 and 65535. In mode BIG the
  transform returns its argument (``If BIG, do nothing''), so 70000 stays 70000.
\<close>

theorem convertEndianness_range_counterexample:
  "\<not> inUint16 (convertEndianness ''BIG'' (Num 70000))"
  by (simp add: convertEndianness_BIG upper_BIG)

text \<open>
  Claim C8, amended. In mode LITTLE the value produced lies between 0 and 65535 for
  every input, an integer of any size or Not-a-Number. In any other mode the transform
  is the identity, so that its result is a 16-bit value exactly when its input is one.
\<close>

theorem convertEndianness_range:
  "(toUpperCase e = ''LITTLE'' \<longrightarrow> inUint16 (convertEndianness e v))
   \<and> (toUpperCase e \<noteq> ''LITTLE'' \<longrightarrow>
        inUint16 (convertEndianness e v) = inUint16 v)"
proof -
  let ?a = "toInt32 v mod 256" and ?b = "toInt32 v div 256 mod 256"
  have "0 \<le> ?a" "?a \<le> 255" "0 \<le> ?b" "?b \<le> 255" by simp_all
  then have "0 \<le> ?a * 256 + ?b" "?a * 256 + ?b \<le> 65535" by simp_all
  then show ?thesis
    by (simp add: convertEndianness_LITTLE convertEndianness_BIG)
qed

theorem convertEndianness_range_witness:
  "toUpperCase ''LITTLE'' = ''LITTLE''
   \<and> inUint16 (convertEndianness ''LITTLE'' (Num 70000))
   \<and> toUpperCase ''BIG'' \<noteq> ''LITTLE''
   \<and> inUint16 (convertEndianness ''BIG'' (Num 255)) = inUint16 (Num 255)"
  using convertEndianness_range [of "''LITTLE''" "Num 70000"]
        convertEndianness_range [of "''BIG''" "Num 255"]
  by (simp add: upper_LITTLE upper_BIG)

section \<open>The value parser\<close>

lemma digit_range:
  "radixDigit R c \<Longrightarrow> 48 \<le> (of_char c :: nat) \<and> (of_char c :: nat) \<le> 122"
  by (simp add: radixDigit_def digitValue_def Let_def split: if_splits option.splits)

lemma digit_not_space: "radixDigit R c \<Longrightarrow> \<not> isWhiteSpace c"
  using digit_range [of R c] by (auto simp: isWhiteSpace_def)

lemma digit_not_sign: "radixDigit R c \<Longrightarrow> c \<noteq> CHR ''+'' \<and> c \<noteq> CHR ''-''"
  using digit_range [of R c] by auto

lemma zero_not_space: "\<not> isWhiteSpace CHR ''0''"
  by (simp add: isWhiteSpace_def)

text \<open>A text that starts with a digit has neither white space nor a sign to skip.\<close>

lemma parseInt_leading_digit:
  assumes R: "2 \<le> R" "R \<le> 36" "R \<noteq> 16"
    and Z: "takeWhile (radixDigit R) s \<noteq> []"
  shows "parseInt s R = Num (int (digitsValue R (takeWhile (radixDigit R) s)))"
proof -
  from Z obtain c cs where s: "s = c # cs" and c: "radixDigit R c"
    by (cases s) (auto split: if_splits)
  have "dropWhile isWhiteSpace s = s" using s c digit_not_space by simp
  moreover have "hd s \<noteq> CHR ''+''" "hd s \<noteq> CHR ''-''" using s c digit_not_sign by auto
  ultimately show ?thesis using R Z
    by (simp add: parseInt_def Let_def)
qed

lemma parseInt_hex_prefix:
  assumes "p = ''0x'' \<or> p = ''0X''"
  shows "parseInt (p @ r) 16 =
     (if takeWhile (radixDigit 16) r = [] then NaN
      else Num (int (digitsValue 16 (takeWhile (radixDigit 16) r))))"
proof -
  have "dropWhile isWhiteSpace (p @ r) = p @ r" "hd (p @ r) = CHR ''0''"
       "startsWith (p @ r) ''0x'' \<or> startsWith (p @ r) ''0X''" "drop 2 (p @ r) = r"
    using assms zero_not_space by (auto simp: startsWith_def)
  then show ?thesis
    unfolding parseInt_def Let_def by simp
qed

lemma parseValue_numericPrefix:
  assumes "numericPrefix t \<noteq> []"
  shows "parseValue t = Num (int (digitsValue (tokenBase t) (numericPrefix t)))"
proof (cases "startsWith t ''b''")
  case True
  then show ?thesis using assms
    by (simp add: parseValue_def numericPrefix_def tokenBase_def tokenBody_def
        parseInt_leading_digit)
next
  case nb: False
  show ?thesis
  proof (cases "startsWith t ''0x'' \<or> startsWith t ''0X''")
    case True
    then have p: "take 2 t = ''0x'' \<or> take 2 t = ''0X''"
      by (simp add: startsWith_def numeral_2_eq_2)
    show ?thesis using assms nb True parseInt_hex_prefix [OF p, of "drop 2 t"]
      by (simp add: parseValue_def numericPrefix_def tokenBase_def tokenBody_def)
  next
    case False
    then show ?thesis using assms nb
      by (simp add: parseValue_def numericPrefix_def tokenBase_def tokenBody_def
          parseInt_leading_digit)
  qed
qed

lemma numericPrefix_all_digits:
  "list_all (radixDigit R) ds \<Longrightarrow> takeWhile (radixDigit R) ds = ds"
  by (simp add: list_all_iff)

lemmas parse_eval =
  parseValue_def parseInt_def startsWith_def isWhiteSpace_def radixDigit_def
  digitValue_def digitsValue_def Let_def

text \<open>
  Claim C7. The parser applies its rules in order. A token that starts with a lowercase
  \<open>b\<close> is read in base 2 from the rest of the token; an uppercase \<open>B\<close> is no binary
  prefix (such a token has no decimal digit at its start and fails). Otherwise a token
  that starts with \<open>0x\<close> or \<open>0X\<close> is read in base 16, and any other token in base 10.
  On a well-formed numeral of a value up to \<open>2 ^ 53\<close>, which a JavaScript number holds
  exactly, the result is the value of the digits: \<open>b1010\<close> is 10, \<open>0xFF\<close> is 255 and
  \<open>42\<close> is 42.
\<close>

theorem parseValue_rules:
  "parseValue (CHR ''b'' # r) = parseInt r 2
   \<and> parseValue (CHR ''B'' # r) = NaN
   \<and> (startsWith t ''0x'' \<or> startsWith t ''0X'' \<longrightarrow> parseValue t = parseInt t 16)
   \<and> (\<not> startsWith t ''b'' \<and> \<not> startsWith t ''0x'' \<and> \<not> startsWith t ''0X''
        \<longrightarrow> parseValue t = parseInt t 10)
   \<and> (ds \<noteq> [] \<and> list_all (radixDigit 2) ds \<and> digitsValue 2 ds \<le> 2 ^ 53
        \<longrightarrow> parseValue (CHR ''b'' # ds) = Num (int (digitsValue 2 ds)))
   \<and> (ds \<noteq> [] \<and> list_all (radixDigit 16) ds \<and> digitsValue 16 ds \<le> 2 ^ 53
        \<longrightarrow> parseValue (''0x'' @ ds) = Num (int (digitsValue 16 ds))
          \<and> parseValue (''0X'' @ ds) = Num (int (digitsValue 16 ds)))
   \<and> (ds \<noteq> [] \<and> list_all (radixDigit 10) ds \<and> digitsValue 10 ds \<le> 2 ^ 53
        \<longrightarrow> parseValue ds = Num (int (digitsValue 10 ds)))
   \<and> parseValue ''b1010'' = Num 10
   \<and> parseValue ''0xFF'' = Num 255
   \<and> parseValue ''42'' = Num 42"
proof -
  have b: "parseValue (CHR ''b'' # r) = parseInt r 2" for r
    by (simp add: parseValue_def startsWith_def)
  have B: "parseValue (CHR ''B'' # r) = NaN"
    by (simp add: parse_eval)
  have x: "startsWith t ''0x'' \<or> startsWith t ''0X'' \<longrightarrow> parseValue t = parseInt t 16"
    by (cases t) (auto simp: parseValue_def startsWith_def)
  have d: "\<not> startsWith t ''b'' \<and> \<not> startsWith t ''0x'' \<and> \<not> startsWith t ''0X''
        \<longrightarrow> parseValue t = parseInt t 10"
    by (simp add: parseValue_def)
  have b2: "parseValue (CHR ''b'' # ds) = Num (int (digitsValue 2 ds))"
    if "ds \<noteq> []" "list_all (radixDigit 2) ds"
    using that by (simp add: b parseInt_leading_digit numericPrefix_all_digits)
  have x16: "parseValue (p @ ds) = Num (int (digitsValue 16 ds))"
    if "ds \<noteq> []" "list_all (radixDigit 16) ds" "p = ''0x'' \<or> p = ''0X''" for p
  proof -
    have "parseValue (p @ ds) = parseInt (p @ ds) 16"
      using that(3) by (auto simp: parseValue_def startsWith_def)
    then show ?thesis
      using that by (simp add: parseInt_hex_prefix numericPrefix_all_digits)
  qed
  have d10: "parseValue ds = Num (int (digitsValue 10 ds))"
    if "ds \<noteq> []" "list_all (radixDigit 10) ds"
  proof -
    have "numericPrefix ds = ds \<and> tokenBase ds = 10"
      using that
      by (cases ds; cases "tl ds")
         (auto simp: numericPrefix_def tokenBase_def tokenBody_def startsWith_def
            radixDigit_def digitValue_def Let_def list_all_iff
            intro!: takeWhile_eq_all_conv [THEN iffD2])
    then show ?thesis using that(1) parseValue_numericPrefix [of ds] by simp
  qed
  have e1: "parseValue ''b1010'' = Num 10" by (simp add: parse_eval)
  have e2: "parseValue ''0xFF'' = Num 255" by (simp add: parse_eval)
  have e3: "parseValue ''42'' = Num 42" by (simp add: parse_eval)
  from b B x d b2 x16 [of "''0x''"] x16 [of "''0X''"] d10 e1 e2 e3 show ?thesis
    by (intro conjI impI) auto
qed

theorem parseValue_rules_witness:
  "parseValue ''b1010'' = parseInt ''1010'' 2
   \<and> startsWith ''0xFF'' ''0x'' \<and> parseValue ''0xFF'' = parseInt ''0xFF'' 16
   \<and> \<not> startsWith ''42'' ''b'' \<and> \<not> startsWith ''42'' ''0x'' \<and> \<not> startsWith ''42'' ''0X''
   \<and> parseValue ''42'' = parseInt ''42'' 10
   \<and> list_all (radixDigit 2) ''1010'' \<and> digitsValue 2 ''1010'' \<le> 2 ^ 53
   \<and> parseValue ''b1010'' = Num (int (digitsValue 2 ''1010''))
   \<and> list_all (radixDigit 16) ''FF'' \<and> digitsValue 16 ''FF'' \<le> 2 ^ 53
   \<and> parseValue ''0xFF'' = Num (int (digitsValue 16 ''FF''))
   \<and> list_all (radixDigit 10) ''42'' \<and> digitsValue 10 ''42'' \<le> 2 ^ 53
   \<and> parseValue ''42'' = Num (int (digitsValue 10 ''42''))"
  using parseValue_rules [of "''1010''" "''0xFF''" "''1010''"]
        parseValue_rules [of "''1010''" "''42''" "''FF''"]
        parseValue_rules [of "''1010''" "''42''" "''42''"]
  by (simp add: parse_eval)

text \<open>
  Claim C10. The parser does not fail on trailing characters that are no digits: when
  the text of a token (after its base prefix) starts with at least one digit of the
  selected base, the result is a number, never Not-a-Number, and the rest is ignored:
  for a run of digits of a value up to \<open>2 ^ 53\<close>, which a JavaScript number holds
  exactly, the result is the value of the longest such run; so \<open>42abc\<close> is 42,
  \<open>0xFFzz\<close> is 255 and \<open>b10x\<close> is 2. Not-a-Number is returned only for a token with
  no digit of the selected base at the start of its text.
\<close>

theorem parseValue_ignores_trailing:
  "(numericPrefix t \<noteq> [] \<and> digitsValue (tokenBase t) (numericPrefix t) \<le> 2 ^ 53 \<longrightarrow>
      parseValue t = Num (int (digitsValue (tokenBase t) (numericPrefix t))))
   \<and> (numericPrefix t \<noteq> [] \<longrightarrow> parseValue t \<noteq> NaN)
   \<and> (parseValue t = NaN \<longrightarrow> numericPrefix t = [])
   \<and> parseValue ''42abc'' = Num 42
   \<and> parseValue ''0xFFzz'' = Num 255
   \<and> parseValue ''b10x'' = Num 2"
proof -
  have 1: "numericPrefix t \<noteq> [] \<longrightarrow>
      parseValue t = Num (int (digitsValue (tokenBase t) (numericPrefix t)))"
    by (simp add: parseValue_numericPrefix)
  then have 2: "parseValue t = NaN \<longrightarrow> numericPrefix t = []"
    by auto
  have "parseValue ''42abc'' = Num 42" by (simp add: parse_eval)
  moreover have "parseValue ''0xFFzz'' = Num 255" by (simp add: parse_eval)
  moreover have "parseValue ''b10x'' = Num 2" by (simp add: parse_eval)
  ultimately show ?thesis using 1 2 by blast
qed

theorem parseValue_ignores_trailing_witness:
  "numericPrefix ''b10x'' = ''10'' \<and> tokenBase ''b10x'' = 2
   \<and> digitsValue 2 ''10'' \<le> 2 ^ 53
   \<and> parseValue ''b10x'' = Num (int (digitsValue 2 ''10''))
   \<and> parseValue ''b10x'' \<noteq> NaN
   \<and> parseValue ''xyz'' = NaN \<and> numericPrefix ''xyz'' = []"
  using parseValue_ignores_trailing [of "''b10x''"] parseValue_ignores_trailing [of "''xyz''"]
  by (simp add: numericPrefix_def tokenBase_def tokenBody_def parse_eval)

section \<open>The read and write entry points\<close>

lemma calls_afterRead: "calls (afterRead cfg nm fc a q c r) = [c]"
  by (simp add: afterRead_def split: sum.split)

lemma console_afterRead_Inl:
  "console (afterRead cfg nm fc a q c (Inl m)) = [ConsoleError [''Error reading data:'', m]]"
  by (simp add: afterRead_def)

lemma console_afterRead_Inr:
  "console (afterRead cfg nm fc a q c (Inr d)) = [requestEcho fc q a, readTable cfg nm fc a q d]"
  by (simp add: afterRead_def)

lemma handleRead_01:
  "readPrompt cfg answer = (a, q) \<Longrightarrow>
   handleRead cfg nm cl ''0x01'' answer =
     afterRead cfg nm ''0x01'' a q (ReadCoils a q) (map_sum id Inl (readCoils cl a q))"
  by (simp add: handleRead_def)

lemma handleRead_02:
  "readPrompt cfg answer = (a, q) \<Longrightarrow>
   handleRead cfg nm cl ''0x02'' answer =
     afterRead cfg nm ''0x02'' a q (ReadDiscreteInputs a q)
       (map_sum id Inl (readDiscreteInputs cl a q))"
  by (simp add: handleRead_def)

lemma handleRead_03:
  "readPrompt cfg answer = (a, q) \<Longrightarrow>
   handleRead cfg nm cl ''0x03'' answer =
     afterRead cfg nm ''0x03'' a q (ReadHoldingRegisters a q)
       (map_sum id Inr (readHoldingRegisters cl a q))"
  by (simp add: handleRead_def)

lemma handleRead_04:
  "readPrompt cfg answer = (a, q) \<Longrightarrow>
   handleRead cfg nm cl ''0x04'' answer =
     afterRead cfg nm ''0x04'' a q (ReadInputRegisters a q)
       (map_sum id Inr (readInputRegisters cl a q))"
  by (simp add: handleRead_def)

lemma handleRead_other:
  "fc \<notin> {''0x01'', ''0x02'', ''0x03'', ''0x04''} \<Longrightarrow>
   handleRead cfg nm cl fc answer =
     \<lparr>calls = [], console = [ConsoleError [''Unsupported read function code.'']]\<rparr>"
  by (simp add: handleRead_def split: prod.split)

text \<open>
  Claim C9. When the read primitive of the transport rejects, the read operation reports
  the failure with the message of the underlying error, and prints nothing else: no
  table, hence no row for any address of the requested span.
\<close>

theorem handleRead_transport_failure:
  assumes "readPrompt cfg answer = (a, q)"
    and "functionCode \<in> {''0x01'', ''0x02'', ''0x03'', ''0x04''}"
    and "functionCode = ''0x01'' \<longrightarrow> readCoils cl a q = Inl message"
    and "functionCode = ''0x02'' \<longrightarrow> readDiscreteInputs cl a q = Inl message"
    and "functionCode = ''0x03'' \<longrightarrow> readHoldingRegisters cl a q = Inl message"
    and "functionCode = ''0x04'' \<longrightarrow> readInputRegisters cl a q = Inl message"
  shows "console (handleRead cfg nm cl functionCode answer)
           = [ConsoleError [''Error reading data:'', message]]
       \<and> (\<forall>rows. ConsoleTable rows \<notin> set (console (handleRead cfg nm cl functionCode answer)))"
proof -
  have "console (handleRead cfg nm cl functionCode answer)
           = [ConsoleError [''Error reading data:'', message]]"
    using assms
    by (auto simp: handleRead_01 handleRead_02 handleRead_03 handleRead_04
        console_afterRead_Inl)
  then show ?thesis by simp
qed

theorem handleRead_transport_failure_witness:
  "console (handleRead config_js noNames (failingClient ''Timed out'') ''0x03'' ''4 4'')
     = [ConsoleError [''Error reading data:'', ''Timed out'']]
   \<and> (\<forall>rows. ConsoleTable rows \<notin>
         set (console (handleRead config_js noNames (failingClient ''Timed out'') ''0x03'' ''4 4'')))"
proof -
  have p: "readPrompt config_js ''4 4'' = (Num 4, Num 4)"
    by code_simp
  show ?thesis
    by (rule handleRead_transport_failure [OF p]) (simp_all add: failingClient_def)
qed

lemma calls_afterWrite: "calls (afterWrite c r d) = [c]"
  by (simp add: afterWrite_def split: sum.split)

lemma console_afterWrite:
  "console (afterWrite c r d) =
     [case r of Inl m \<Rightarrow> ConsoleError [''Error writing data:'', m] | Inr _ \<Rightarrow> ConsoleLog [d]]"
  by (simp add: afterWrite_def split: sum.split)

lemma handleWrite_short:
  "length (splitWhitespace (trim line)) < 2 \<Longrightarrow>
   handleWrite cfg cl fc line =
     \<lparr>calls = [],
      console = [ConsoleError [''You must provide at least an address and one value.'']]\<rparr>"
  by (simp add: handleWrite_def Let_def)

lemma handleWrite_0f:
  assumes "parts = splitWhitespace (trim line)" and "2 \<le> length parts"
  shows "handleWrite cfg cl ''0x0f'' line =
     afterWrite
       (WriteCoils (parseValue (parts ! 0)) (map (\<lambda>t. parseValue t \<noteq> Num 0) (drop 1 parts)))
       (writeCoils cl (parseValue (parts ! 0)) (map (\<lambda>t. parseValue t \<noteq> Num 0) (drop 1 parts)))
       ''Successfully wrote multiple coils.''"
  using assms by (simp add: handleWrite_def Let_def comp_def)

lemma handleWrite_10:
  assumes "parts = splitWhitespace (trim line)" and "2 \<le> length parts"
  shows "handleWrite cfg cl ''0x10'' line =
     afterWrite
       (WriteRegisters (parseValue (parts ! 0))
          (map (\<lambda>t. convertEndianness (ENDIANNESS cfg) (parseValue t)) (drop 1 parts)))
       (writeRegisters cl (parseValue (parts ! 0))
          (map (\<lambda>t. convertEndianness (ENDIANNESS cfg) (parseValue t)) (drop 1 parts)))
       ''Successfully wrote multiple holding registers.''"
  using assms by (simp add: handleWrite_def Let_def comp_def)

lemma handleWrite_other:
  assumes "2 \<le> length (splitWhitespace (trim line))" and "fc \<notin> {''0x0f'', ''0x10''}"
  shows "handleWrite cfg cl fc line =
     \<lparr>calls = [], console = [ConsoleError [''Unsupported write function code.'']]\<rparr>"
  using assms by (simp add: handleWrite_def Let_def)

lemma lower_codes:
  "toLowerCase (trim ''0x01'') = ''0x01''" "toLowerCase (trim ''0x02'') = ''0x02''"
  "toLowerCase (trim ''0x03'') = ''0x03''" "toLowerCase (trim ''0x04'') = ''0x04''"
  "toLowerCase (trim ''0x0F'') = ''0x0f''" "toLowerCase (trim ''0x0f'') = ''0x0f''"
  "toLowerCase (trim ''0x10'') = ''0x10''"
  by code_simp+

lemma dispatch_read:
  "dispatchFunctionCode cfg nm cl ''0x01'' answer = handleRead cfg nm cl ''0x01'' answer"
  "dispatchFunctionCode cfg nm cl ''0x02'' answer = handleRead cfg nm cl ''0x02'' answer"
  "dispatchFunctionCode cfg nm cl ''0x03'' answer = handleRead cfg nm cl ''0x03'' answer"
  "dispatchFunctionCode cfg nm cl ''0x04'' answer = handleRead cfg nm cl ''0x04'' answer"
  by (simp_all add: dispatchFunctionCode_def lower_codes)

lemma dispatch_write:
  "dispatchFunctionCode cfg nm cl ''0x0F'' line = handleWrite cfg cl ''0x0f'' line"
  "dispatchFunctionCode cfg nm cl ''0x0f'' line = handleWrite cfg cl ''0x0f'' line"
  "dispatchFunctionCode cfg nm cl ''0x10'' line = handleWrite cfg cl ''0x10'' line"
  by (simp_all add: dispatchFunctionCode_def lower_codes)

lemma dispatch_other:
  assumes "toLowerCase (trim entry) \<notin>
             {''quit'', ''0x01'', ''0x02'', ''0x03'', ''0x04'', ''0x0f'', ''0x10''}"
  shows "dispatchFunctionCode cfg nm cl entry answer =
     \<lparr>calls = [],
      console = [ConsoleError [''Unrecognized function code. Please try again.'']]\<rparr>"
  using assms by (simp add: dispatchFunctionCode_def Let_def)


text \<open>
  Claim C5. Each of the six supported function codes, entered at the menu in either
  case of its hexadecimal letter (the loop lower-cases the entry), is passed to the
  matching entry point, and that entry point calls the one corresponding primitive of
  the transport with the parsed arguments: the read entry point for \<open>0x01\<close>, \<open>0x02\<close>,
  \<open>0x03\<close> and \<open>0x04\<close> (coils, discrete inputs, holding registers, input registers),
  the write entry point for \<open>0x0F\<close> (coils) and \<open>0x10\<close> (holding registers), given
  an address and at least one value. Any other function code, in the lower case in
  which the loop passes codes, is reported as unsupported by the read entry point and
  by the write entry point, and no transport call is made; entered at the menu, such a
  code is refused by the loop itself, again without a transport call. Arguments are
  stated for numbers that JavaScript holds exactly.
\<close>

theorem function_code_dispatch:
  assumes rp: "readPrompt cfg answer = (a, q)"
    and parts: "parts = splitWhitespace (trim line)"
    and two: "2 \<le> length parts"
    and exact: "exactNumber a" "exactNumber q" "\<forall>t \<in> set parts. exactNumber (parseValue t)"
  shows
  "dispatchFunctionCode cfg nm cl ''0x01'' answer = handleRead cfg nm cl ''0x01'' answer
   \<and> calls (handleRead cfg nm cl ''0x01'' answer) = [ReadCoils a q]
   \<and> dispatchFunctionCode cfg nm cl ''0x02'' answer = handleRead cfg nm cl ''0x02'' answer
   \<and> calls (handleRead cfg nm cl ''0x02'' answer) = [ReadDiscreteInputs a q]
   \<and> dispatchFunctionCode cfg nm cl ''0x03'' answer = handleRead cfg nm cl ''0x03'' answer
   \<and> calls (handleRead cfg nm cl ''0x03'' answer) = [ReadHoldingRegisters a q]
   \<and> dispatchFunctionCode cfg nm cl ''0x04'' answer = handleRead cfg nm cl ''0x04'' answer
   \<and> calls (handleRead cfg nm cl ''0x04'' answer) = [ReadInputRegisters a q]
   \<and> dispatchFunctionCode cfg nm cl ''0x0F'' line = handleWrite cfg cl ''0x0f'' line
   \<and> calls (handleWrite cfg cl ''0x0f'' line) =
         [WriteCoils (parseValue (parts ! 0))
            (map (\<lambda>t. parseValue t \<noteq> Num 0) (drop 1 parts))]
   \<and> dispatchFunctionCode cfg nm cl ''0x10'' line = handleWrite cfg cl ''0x10'' line
   \<and> calls (handleWrite cfg cl ''0x10'' line) =
         [WriteRegisters (parseValue (parts ! 0))
            (map (\<lambda>t. convertEndianness (ENDIANNESS cfg) (parseValue t)) (drop 1 parts))]
   \<and> (toLowerCase functionCode \<notin> {''0x01'', ''0x02'', ''0x03'', ''0x04''} \<longrightarrow>
        handleRead cfg nm cl (toLowerCase functionCode) answer =
          \<lparr>calls = [], console = [ConsoleError [''Unsupported read function code.'']]\<rparr>)
   \<and> (toLowerCase functionCode \<notin> {''0x0f'', ''0x10''} \<longrightarrow>
        handleWrite cfg cl (toLowerCase functionCode) line =
          \<lparr>calls = [], console = [ConsoleError [''Unsupported write function code.'']]\<rparr>)
   \<and> (toLowerCase (trim entry) \<notin>
          {''quit'', ''0x01'', ''0x02'', ''0x03'', ''0x04'', ''0x0f'', ''0x10''} \<longrightarrow>
        dispatchFunctionCode cfg nm cl entry answer =
          \<lparr>calls = [],
           console = [ConsoleError [''Unrecognized function code. Please try again.'']]\<rparr>)"
proof -
  have u: "toLowerCase (trim entry) \<notin>
          {''quit'', ''0x01'', ''0x02'', ''0x03'', ''0x04'', ''0x0f'', ''0x10''} \<longrightarrow>
        dispatchFunctionCode cfg nm cl entry answer =
          \<lparr>calls = [],
           console = [ConsoleError [''Unrecognized function code. Please try again.'']]\<rparr>"
    using dispatch_other by blast
  have r: "calls (handleRead cfg nm cl ''0x01'' answer) = [ReadCoils a q]"
    "calls (handleRead cfg nm cl ''0x02'' answer) = [ReadDiscreteInputs a q]"
    "calls (handleRead cfg nm cl ''0x03'' answer) = [ReadHoldingRegisters a q]"
    "calls (handleRead cfg nm cl ''0x04'' answer) = [ReadInputRegisters a q]"
    by (simp_all add: handleRead_01 [OF rp] handleRead_02 [OF rp] handleRead_03 [OF rp]
        handleRead_04 [OF rp] calls_afterRead)
  have w: "calls (handleWrite cfg cl ''0x0f'' line) =
         [WriteCoils (parseValue (parts ! 0))
            (map (\<lambda>t. parseValue t \<noteq> Num 0) (drop 1 parts))]"
    by (simp only: handleWrite_0f [OF parts two] calls_afterWrite)
  have w': "calls (handleWrite cfg cl ''0x10'' line) =
         [WriteRegisters (parseValue (parts ! 0))
            (map (\<lambda>t. convertEndianness (ENDIANNESS cfg) (parseValue t)) (drop 1 parts))]"
    by (simp only: handleWrite_10 [OF parts two] calls_afterWrite)
  have o: "toLowerCase functionCode \<notin> {''0x01'', ''0x02'', ''0x03'', ''0x04''} \<longrightarrow>
        handleRead cfg nm cl (toLowerCase functionCode) answer =
          \<lparr>calls = [], console = [ConsoleError [''Unsupported read function code.'']]\<rparr>"
    using handleRead_other by blast
  have o': "toLowerCase functionCode \<notin> {''0x0f'', ''0x10''} \<longrightarrow>
        handleWrite cfg cl (toLowerCase functionCode) line =
          \<lparr>calls = [], console = [ConsoleError [''Unsupported write function code.'']]\<rparr>"
    using handleWrite_other two parts by blast
  from r w w' o o' u show ?thesis
    by (simp only: dispatch_read dispatch_write simp_thms)
qed

theorem function_code_dispatch_witness:
  "dispatchFunctionCode config_js noNames (stubClient [] []) ''0x01'' ''4 4''
     = handleRead config_js noNames (stubClient [] []) ''0x01'' ''4 4''
   \<and> calls (handleRead config_js noNames (stubClient [] []) ''0x01'' ''4 4'')
     = [ReadCoils (Num 4) (Num 4)]
   \<and> calls (handleRead config_js noNames (stubClient [] []) ''0x02'' ''4 4'')
     = [ReadDiscreteInputs (Num 4) (Num 4)]
   \<and> calls (handleRead config_js noNames (stubClient [] []) ''0x03'' ''4 4'')
     = [ReadHoldingRegisters (Num 4) (Num 4)]
   \<and> calls (handleRead config_js noNames (stubClient [] []) ''0x04'' ''4 4'')
     = [ReadInputRegisters (Num 4) (Num 4)]
   \<and> dispatchFunctionCode config_js noNames (stubClient [] []) ''0x0F'' ''10 1 0''
     = handleWrite config_js (stubClient [] []) ''0x0f'' ''10 1 0''
   \<and> calls (handleWrite config_js (stubClient [] []) ''0x0f'' ''10 1 0'')
     = [WriteCoils (Num 10) [True, False]]
   \<and> calls (handleWrite config_js (stubClient [] []) ''0x10'' ''10 1 0'')
     = [WriteRegisters (Num 10) [Num 1, Num 0]]
   \<and> toLowerCase ''0x05'' = ''0x05''
   \<and> handleRead config_js noNames (stubClient [] []) ''0x05'' ''4 4''
     = \<lparr>calls = [], console = [ConsoleError [''Unsupported read function code.'']]\<rparr>
   \<and> handleWrite config_js (stubClient [] []) ''0x05'' ''10 1 0''
     = \<lparr>calls = [], console = [ConsoleError [''Unsupported write function code.'']]\<rparr>
   \<and> toLowerCase (trim ''0x05'') = ''0x05''
   \<and> dispatchFunctionCode config_js noNames (stubClient [] []) ''0x05'' ''4 4''
     = \<lparr>calls = [],
        console = [ConsoleError [''Unrecognized function code. Please try again.'']]\<rparr>"
proof -
  have r: "readPrompt config_js ''4 4'' = (Num 4, Num 4)" by code_simp
  have p: "[''10'', ''1'', ''0''] = splitWhitespace (trim ''10 1 0'')" by code_simp
  have l: "2 \<le> length [''10'', ''1'', ''0'']" by simp
  have v: "parseValue ''10'' = Num 10" "parseValue ''1'' = Num 1" "parseValue ''0'' = Num 0"
    by (simp_all add: parse_eval)
  have x: "exactNumber (Num 4)" "\<forall>t \<in> set [''10'', ''1'', ''0'']. exactNumber (parseValue t)"
    by (simp_all add: v)
  have e: "ENDIANNESS config_js = ''BIG''" by (simp add: config_js_def)
  have c: "toLowerCase ''0x05'' = ''0x05''" "toLowerCase (trim ''0x05'') = ''0x05''"
    by code_simp+
  show ?thesis
    using function_code_dispatch [OF r p l x(1) x(1) x(2),
        of noNames "stubClient [] []" "''0x05''" "''0x05''"]
    by (simp add: v e c convertEndianness_BIG upper_BIG)
qed

lemma parseInt_no_digit:
  assumes R: "2 \<le> R" "R \<le> 36" "R \<noteq> 16"
    and s: "s = [] \<or> (\<not> radixDigit R (hd s) \<and> \<not> isWhiteSpace (hd s)
                       \<and> hd s \<noteq> CHR ''+'' \<and> hd s \<noteq> CHR ''-'')"
  shows "parseInt s R = NaN"
proof (cases s)
  case Nil
  then show ?thesis using R by (simp add: parseInt_def Let_def)
next
  case (Cons c cs)
  with s have c: "\<not> radixDigit R c" "\<not> isWhiteSpace c" "c \<noteq> CHR ''+''" "c \<noteq> CHR ''-''"
    by auto
  then show ?thesis using R Cons by (simp add: parseInt_def Let_def)
qed

lemma parseValue_no_numeral:
  assumes "tokenBody t = [] \<or>
           (\<not> radixDigit (tokenBase t) (hd (tokenBody t)) \<and> \<not> isWhiteSpace (hd (tokenBody t))
            \<and> hd (tokenBody t) \<noteq> CHR ''+'' \<and> hd (tokenBody t) \<noteq> CHR ''-'')"
  shows "parseValue t = NaN"
proof (cases "startsWith t ''b''")
  case True
  then show ?thesis using assms
    by (simp add: parseValue_def tokenBase_def tokenBody_def parseInt_no_digit)
next
  case nb: False
  show ?thesis
  proof (cases "startsWith t ''0x'' \<or> startsWith t ''0X''")
    case True
    then have p: "take 2 t = ''0x'' \<or> take 2 t = ''0X''"
      by (simp add: startsWith_def numeral_2_eq_2)
    have "takeWhile (radixDigit 16) (drop 2 t) = []"
      using assms nb True by (cases "drop 2 t") (auto simp: tokenBase_def tokenBody_def)
    then show ?thesis using nb True parseInt_hex_prefix [OF p, of "drop 2 t"]
      by (simp add: parseValue_def)
  next
    case False
    then show ?thesis using assms nb
      by (simp add: parseValue_def tokenBase_def tokenBody_def parseInt_no_digit)
  qed
qed

lemma convertEndianness_NaN_little: "toUpperCase e = ''LITTLE'' \<Longrightarrow> convertEndianness e NaN = Num 0"
  by (simp add: convertEndianness_LITTLE)

text \<open>
  Claim C2, as stated: a token that fails to parse is detected by the entry points and
  reported as invalid input, and is never transmitted. Neither entry point tests for
  Not-a-Number: with the line \<open>10 abc\<close> the coil write sends \<open>true\<close> for \<open>abc\<close>
  (\<^verbatim>\<open>NaN !== 0\<close>), the register write sends Not-a-Number itself, and both print
  their message of success.
\<close>

theorem failed_parse_counterexample:
  "parseValue ''abc'' = NaN
   \<and> handleWrite config_js (stubClient [] []) ''0x0f'' ''10 abc''
       = \<lparr>calls = [WriteCoils (Num 10) [True]],
          console = [ConsoleLog [''Successfully wrote multiple coils.'']]\<rparr>
   \<and> handleWrite config_js (stubClient [] []) ''0x10'' ''10 abc''
       = \<lparr>calls = [WriteRegisters (Num 10) [NaN]],
          console = [ConsoleLog [''Successfully wrote multiple holding registers.'']]\<rparr>"
proof -
  have p: "[''10'', ''abc''] = splitWhitespace (trim ''10 abc'')" by code_simp
  have l: "2 \<le> length [''10'', ''abc'']" by simp
  have v: "parseValue ''10'' = Num 10" "parseValue ''abc'' = NaN"
    by (simp_all add: parse_eval)
  have e: "ENDIANNESS config_js = ''BIG''" by (simp add: config_js_def)
  show ?thesis
    by (simp add: handleWrite_0f [OF p l] handleWrite_10 [OF p l] v e afterWrite_def
        stubClient_def convertEndianness_BIG upper_BIG)
qed

text \<open>
  Claim C2, amended. A token whose text (after its base prefix) is empty or begins with
  a character that is neither a digit of the selected base, a sign nor white space
  parses to Not-a-Number. The entry points do not detect a failed parse. The write
  entry point, given an address and values, transmits a failed coil value as \<open>true\<close>
  and passes a failed register value through the endianness transform to the register
  write (Not-a-Number in mode BIG, 0 in mode LITTLE); what it prints is the outcome of
  the transport call, not a report of invalid input. The read entry point calls its
  read primitive with the address and quantity as parsed, Not-a-Number included.
\<close>

theorem failed_parse_is_transmitted:
  assumes parts: "parts = splitWhitespace (trim line)"
    and i: "Suc i < length parts"
    and nan: "parseValue (parts ! Suc i) = NaN"
    and a: "a = parseValue (parts ! 0)"
    and bs: "bs = map (\<lambda>t. parseValue t \<noteq> Num 0) (drop 1 parts)"
    and rs: "rs = map (\<lambda>t. convertEndianness (ENDIANNESS cfg) (parseValue t)) (drop 1 parts)"
    and rp: "readPrompt cfg answer = (ra, rq)"
  shows
  "calls (handleWrite cfg cl ''0x0f'' line) = [WriteCoils a bs]
   \<and> bs ! i = True
   \<and> console (handleWrite cfg cl ''0x0f'' line) =
       [case writeCoils cl a bs of
          Inl m \<Rightarrow> ConsoleError [''Error writing data:'', m]
        | Inr _ \<Rightarrow> ConsoleLog [''Successfully wrote multiple coils.'']]
   \<and> calls (handleWrite cfg cl ''0x10'' line) = [WriteRegisters a rs]
   \<and> rs ! i = (if toUpperCase (ENDIANNESS cfg) = ''LITTLE'' then Num 0 else NaN)
   \<and> console (handleWrite cfg cl ''0x10'' line) =
       [case writeRegisters cl a rs of
          Inl m \<Rightarrow> ConsoleError [''Error writing data:'', m]
        | Inr _ \<Rightarrow> ConsoleLog [''Successfully wrote multiple holding registers.'']]
   \<and> calls (handleRead cfg nm cl ''0x01'' answer) = [ReadCoils ra rq]
   \<and> calls (handleRead cfg nm cl ''0x02'' answer) = [ReadDiscreteInputs ra rq]
   \<and> calls (handleRead cfg nm cl ''0x03'' answer) = [ReadHoldingRegisters ra rq]
   \<and> calls (handleRead cfg nm cl ''0x04'' answer) = [ReadInputRegisters ra rq]
   \<and> ((tokenBody t = [] \<or>
         (\<not> radixDigit (tokenBase t) (hd (tokenBody t)) \<and> \<not> isWhiteSpace (hd (tokenBody t))
          \<and> hd (tokenBody t) \<noteq> CHR ''+'' \<and> hd (tokenBody t) \<noteq> CHR ''-''))
        \<longrightarrow> parseValue t = NaN)"
proof -
  have l: "2 \<le> length parts" using i by simp
  have w: "handleWrite cfg cl ''0x0f'' line =
      afterWrite (WriteCoils a bs) (writeCoils cl a bs) ''Successfully wrote multiple coils.''"
    unfolding a bs by (rule handleWrite_0f [OF parts l])
  have w': "handleWrite cfg cl ''0x10'' line =
      afterWrite (WriteRegisters a rs) (writeRegisters cl a rs)
        ''Successfully wrote multiple holding registers.''"
    unfolding a rs by (rule handleWrite_10 [OF parts l])
  have d: "drop 1 parts ! i = parts ! Suc i" using i by simp
  have il: "i < length (drop 1 parts)" using i by simp
  have b: "bs ! i = True"
    unfolding bs using il d nan by simp
  have r: "rs ! i = (if toUpperCase (ENDIANNESS cfg) = ''LITTLE'' then Num 0 else NaN)"
    unfolding rs using il d nan
    by (simp add: convertEndianness_NaN_little convertEndianness_BIG)
  have rd: "calls (handleRead cfg nm cl ''0x01'' answer) = [ReadCoils ra rq]"
    "calls (handleRead cfg nm cl ''0x02'' answer) = [ReadDiscreteInputs ra rq]"
    "calls (handleRead cfg nm cl ''0x03'' answer) = [ReadHoldingRegisters ra rq]"
    "calls (handleRead cfg nm cl ''0x04'' answer) = [ReadInputRegisters ra rq]"
    by (simp_all add: handleRead_01 [OF rp] handleRead_02 [OF rp] handleRead_03 [OF rp]
        handleRead_04 [OF rp] calls_afterRead)
  have n: "(tokenBody t = [] \<or>
         (\<not> radixDigit (tokenBase t) (hd (tokenBody t)) \<and> \<not> isWhiteSpace (hd (tokenBody t))
          \<and> hd (tokenBody t) \<noteq> CHR ''+'' \<and> hd (tokenBody t) \<noteq> CHR ''-''))
        \<longrightarrow> parseValue t = NaN"
    using parseValue_no_numeral by blast
  show ?thesis
    unfolding w w' calls_afterWrite console_afterWrite
    using b r rd n by simp
qed

theorem failed_parse_is_transmitted_witness:
  "calls (handleWrite config_js (stubClient [] []) ''0x0f'' ''10 1 zz'')
     = [WriteCoils (Num 10) [True, True]]
   \<and> console (handleWrite config_js (stubClient [] []) ''0x0f'' ''10 1 zz'')
     = [ConsoleLog [''Successfully wrote multiple coils.'']]
   \<and> calls (handleWrite config_js (stubClient [] []) ''0x10'' ''10 1 zz'')
     = [WriteRegisters (Num 10) [Num 1, NaN]]
   \<and> console (handleWrite config_js (stubClient [] []) ''0x10'' ''10 1 zz'')
     = [ConsoleLog [''Successfully wrote multiple holding registers.'']]
   \<and> calls (handleRead config_js noNames (stubClient [] []) ''0x03'' ''zz'')
     = [ReadHoldingRegisters NaN (Num 1)]
   \<and> tokenBody ''zz'' = ''zz'' \<and> tokenBase ''zz'' = 10 \<and> \<not> radixDigit 10 CHR ''z''
   \<and> parseValue ''zz'' = NaN"
proof -
  have p: "[''10'', ''1'', ''zz''] = splitWhitespace (trim ''10 1 zz'')" by code_simp
  have i: "Suc 1 < length [''10'', ''1'', ''zz'']" by simp
  have v: "parseValue ''10'' = Num 10" "parseValue ''1'' = Num 1" "parseValue ''zz'' = NaN"
    by (simp_all add: parse_eval)
  have n: "parseValue ([''10'', ''1'', ''zz''] ! Suc 1) = NaN" using v by simp
  have rp: "readPrompt config_js ''zz'' = (NaN, Num 1)" by code_simp
  have e: "ENDIANNESS config_js = ''BIG''" by (simp add: config_js_def)
  have t: "tokenBody ''zz'' = ''zz''" "tokenBase ''zz'' = 10" "\<not> radixDigit 10 CHR ''z''"
    "\<not> isWhiteSpace CHR ''z''"
    by (simp_all add: tokenBody_def tokenBase_def startsWith_def radixDigit_def digitValue_def
        isWhiteSpace_def)
  show ?thesis
    using failed_parse_is_transmitted [OF p i n refl refl refl rp,
        of "stubClient [] []" noNames "''zz''"]
    by (simp add: v e t convertEndianness_BIG upper_BIG stubClient_def)
qed

section \<open>The rows of a read\<close>

lemma upper_digitChar:
  assumes "d < 16"
  shows "toUpperChar (digitChar d) = hexDigitUpper d"
proof -
  have "list_all (\<lambda>d. toUpperChar (digitChar d) = hexDigitUpper d) [0..<16]"
    by code_simp
  then show ?thesis using assms by (simp add: list_all_iff)
qed

lemma upper_zero: "toUpperChar CHR ''0'' = CHR ''0''"
  by (simp add: toUpperChar_def)

lemma padStart_4:
  "padStart 4 c [z] = [c, c, c, z]"
  "padStart 4 c [y, z] = [c, c, y, z]"
  "padStart 4 c [x, y, z] = [c, x, y, z]"
  "padStart 4 c [w, x, y, z] = [w, x, y, z]"
  by (simp_all add: padStart_def eval_nat_numeral)

lemma natToString_16_1: "n < 16 \<Longrightarrow> natToString 16 n = [digitChar n]"
  by (subst natToString.simps) simp

lemma natToString_16_step:
  "16 \<le> n \<Longrightarrow> natToString 16 n = natToString 16 (n div 16) @ [digitChar (n mod 16)]"
  by (subst natToString.simps) simp

lemma hexDigitUpper_0: "hexDigitUpper 0 = CHR ''0''"
  by (simp add: hexDigitUpper_def)

lemma natToString_16_2:
  "16 \<le> n \<Longrightarrow> n < 256 \<Longrightarrow>
   natToString 16 n = [digitChar (n div 16), digitChar (n mod 16)]"
  by (simp add: natToString_16_step natToString_16_1)

lemma natToString_16_3:
  assumes "256 \<le> n" "n < 4096"
  shows "natToString 16 n
         = [digitChar (n div 256), digitChar (n div 16 mod 16), digitChar (n mod 16)]"
proof -
  have "16 \<le> n" "16 \<le> n div 16" "n div 16 < 256" "n div 16 div 16 = n div 256"
    using assms by (simp_all add: div_mult2_eq [symmetric])
  then show ?thesis
    using natToString_16_step [of n] natToString_16_2 [of "n div 16"] by simp
qed

lemma natToString_16_4:
  assumes "4096 \<le> n" "n < 65536"
  shows "natToString 16 n
         = [digitChar (n div 4096), digitChar (n div 256 mod 16),
            digitChar (n div 16 mod 16), digitChar (n mod 16)]"
proof -
  have "16 \<le> n" "256 \<le> n div 16" "n div 16 < 4096" "n div 16 div 16 = n div 256"
    "n div 16 div 256 = n div 4096"
    using assms by (simp_all add: div_mult2_eq [symmetric])
  then show ?thesis
    using natToString_16_step [of n] natToString_16_3 [of "n div 16"] by simp
qed

lemma toHex_hex4:
  assumes "n < 65536"
  shows "toHex (Num (int n)) = ''0x'' @ hex4 n"
proof -
  have lt: "n mod 16 < 16" "n div 16 mod 16 < 16" "n div 256 mod 16 < 16" by simp_all
  have s: "toUpperCase (padStart 4 CHR ''0'' (natToString 16 n)) = hex4 n"
  proof -
    consider "n < 16" | "16 \<le> n" "n < 256" | "256 \<le> n" "n < 4096" | "4096 \<le> n"
      by linarith
    then show ?thesis
    proof cases
      case 1
      then have "n div 16 = 0" "n div 256 = 0" "n div 4096 = 0" "n mod 16 = n" by simp_all
      then show ?thesis using 1
        by (simp add: natToString_16_1 padStart_4 toUpperCase_def hex4_def
            upper_digitChar hexDigitUpper_0 upper_zero)
    next
      case 2
      then have a: "n div 16 < 16" "n div 256 = 0" "n div 4096 = 0" by simp_all
      then have b: "n div 16 mod 16 = n div 16" by simp
      show ?thesis using a lt
        by (simp add: natToString_16_2 [OF 2] b padStart_4 toUpperCase_def hex4_def
            upper_digitChar hexDigitUpper_0 upper_zero)
    next
      case 3
      then have a: "n div 256 < 16" "n div 4096 = 0" by simp_all
      then have b: "n div 256 mod 16 = n div 256" by simp
      show ?thesis using a lt
        by (simp add: natToString_16_3 [OF 3] b padStart_4 toUpperCase_def hex4_def
            upper_digitChar hexDigitUpper_0 upper_zero)
    next
      case 4
      then have a: "n div 4096 < 16" using assms by simp
      then have b: "n div 4096 mod 16 = n div 4096" by simp
      show ?thesis using a lt
        by (simp add: natToString_16_4 [OF 4 assms] b padStart_4 toUpperCase_def hex4_def
            upper_digitChar)
    qed
  qed
  show ?thesis by (simp add: toHex_def s)
qed

lemma registerRow_fields:
  "Reg (registerRow cfg nm fc (Num a) (i, raw))
     = (if fc = ''0x03'' then ''HR'' else ''IR'') @ numberToString (Num (a + int i + 1)) 10"
  "Addr (registerRow cfg nm fc (Num a) (i, raw)) = toHex (Num (a + int i))"
  "Decimal (registerRow cfg nm fc (Num a) (i, raw)) = convertEndianness (ENDIANNESS cfg) raw"
  by (simp_all add: registerRow_def Let_def)


lemma register_table:
  assumes rp: "readPrompt cfg answer = (a, q)"
    and fc: "functionCode = ''0x03'' \<or> functionCode = ''0x04''"
    and r3: "functionCode = ''0x03'' \<longrightarrow> readHoldingRegisters cl a q = Inr data"
    and r4: "functionCode = ''0x04'' \<longrightarrow> readInputRegisters cl a q = Inr data"
  shows "console (handleRead cfg nm cl functionCode answer) =
           [requestEcho functionCode q a,
            ConsoleTable (map (registerRow cfg nm functionCode a) (enumerate 0 data))]"
  using fc
proof
  assume f: "functionCode = ''0x03''"
  with r3 show ?thesis
    by (simp add: handleRead_03 [OF rp] console_afterRead_Inr readTable_def)
next
  assume f: "functionCode = ''0x04''"
  with r4 show ?thesis
    by (simp add: handleRead_04 [OF rp] console_afterRead_Inr readTable_def)
qed

lemma bit_table:
  assumes rp: "readPrompt cfg answer = (a, q)"
    and fc: "functionCode = ''0x01'' \<or> functionCode = ''0x02''"
    and r1: "functionCode = ''0x01'' \<longrightarrow> readCoils cl a q = Inr data"
    and r2: "functionCode = ''0x02'' \<longrightarrow> readDiscreteInputs cl a q = Inr data"
  shows "console (handleRead cfg nm cl functionCode answer) =
           [requestEcho functionCode q a,
            ConsoleTable (map (bitRow nm functionCode a) (enumerate 0 (slice0 data q)))]"
  using fc
proof
  assume f: "functionCode = ''0x01''"
  with r1 show ?thesis
    by (simp add: handleRead_01 [OF rp] console_afterRead_Inr readTable_def)
next
  assume f: "functionCode = ''0x02''"
  with r2 show ?thesis
    by (simp add: handleRead_02 [OF rp] console_afterRead_Inr readTable_def)
qed

text \<open>
  The two boolean classes do truncate: with a quantity \<open>n\<close> and at least \<open>n\<close> values
  delivered, the table has exactly \<open>n\<close> rows.
\<close>

lemma bit_read_truncated:
  assumes "readPrompt cfg answer = (a, Num (int n))"
    and "functionCode = ''0x01'' \<or> functionCode = ''0x02''"
    and "functionCode = ''0x01'' \<longrightarrow> readCoils cl a (Num (int n)) = Inr data"
    and "functionCode = ''0x02'' \<longrightarrow> readDiscreteInputs cl a (Num (int n)) = Inr data"
    and "n \<le> length data"
  shows "\<exists>rows. console (handleRead cfg nm cl functionCode answer)
                  = [requestEcho functionCode (Num (int n)) a, ConsoleTable rows]
               \<and> length rows = n"
  using bit_table [OF assms(1-4)] assms(5) by simp

text \<open>The example session of README.md, cell by cell.\<close>

lemma readme_prompt: "readPrompt config_js ''4 4'' = (Num 4, Num 4)"
  by code_simp

lemma readme_echo: "requestEcho ''0x03'' (Num 4) (Num 4)
    = ConsoleLog [CHR 0x22 # ''Read Holding Registers'' @ CHR 0x22
                     # '' 4 registers from 0x0004.'']"
  by code_simp

lemma toHex_65535: "toHex (Num 65535) = ''0xFFFF''"
  using toHex_hex4 [of 65535] by (simp add: hex4_def hexDigitUpper_def)

lemma toBinary_65535: "toBinaryWithSpaces (Num 65535) = ''1111 1111 1111 1111 ''"
  by (simp add: toBinaryWithSpaces_def natToString.simps padStart_def digitChar_def)

lemma readme_cells:
  "toHex (Num 5) = ''0x0005''" "toHex (Num 6) = ''0x0006''"
  "numberToString (Num 6) 10 = ''6''" "numberToString (Num 7) 10 = ''7''"
  "getRegisterName readmeNames ''0x03'' ''0x0005'' = ''SYS_AUTOSTART_TIME''"
  "getRegisterName readmeNames ''0x03'' ''0x0006'' = ''SYS_AUTOSTOP_TIME''"
  by code_simp+

lemma readme_rows:
  "registerRow config_js readmeNames ''0x03'' (Num 4) (0, Num 0)
   = RegisterRow ''HR5'' ''0x0004'' ''CALIBRATE_SENSOR'' (Num 0)
       ''0x0000'' ''0000 0000 0000 0000 ''"
  "registerRow config_js readmeNames ''0x03'' (Num 4) (Suc (Suc (Suc 0)), Num 255)
   = RegisterRow ''HR8'' ''0x0007'' ''SYS_SAVE_SETTINGS'' (Num 255)
       ''0x00FF'' ''0000 0000 1111 1111 ''"
  by code_simp+

lemma readme_rows_65535:
  "registerRow config_js readmeNames ''0x03'' (Num 4) (Suc 0, Num 65535)
   = RegisterRow ''HR6'' ''0x0005'' ''SYS_AUTOSTART_TIME'' (Num 65535)
       ''0xFFFF'' ''1111 1111 1111 1111 ''"
  "registerRow config_js readmeNames ''0x03'' (Num 4) (Suc (Suc 0), Num 65535)
   = RegisterRow ''HR7'' ''0x0006'' ''SYS_AUTOSTOP_TIME'' (Num 65535)
       ''0xFFFF'' ''1111 1111 1111 1111 ''"
  by (simp_all add: registerRow_def Let_def config_js_def convertEndianness_BIG upper_BIG
      toHex_65535 toBinary_65535 readme_cells del: numberToString.simps)

lemma readme_table:
  "console (handleRead config_js readmeNames
        (stubClient [] [Num 0, Num 65535, Num 65535, Num 255]) ''0x03'' ''4 4'')
      = [ConsoleLog [CHR 0x22 # ''Read Holding Registers'' @ CHR 0x22
                     # '' 4 registers from 0x0004.''],
         ConsoleTable
           [RegisterRow ''HR5'' ''0x0004'' ''CALIBRATE_SENSOR'' (Num 0)
              ''0x0000'' ''0000 0000 0000 0000 '',
            RegisterRow ''HR6'' ''0x0005'' ''SYS_AUTOSTART_TIME'' (Num 65535)
              ''0xFFFF'' ''1111 1111 1111 1111 '',
            RegisterRow ''HR7'' ''0x0006'' ''SYS_AUTOSTOP_TIME'' (Num 65535)
              ''0xFFFF'' ''1111 1111 1111 1111 '',
            RegisterRow ''HR8'' ''0x0007'' ''SYS_SAVE_SETTINGS'' (Num 255)
              ''0x00FF'' ''0000 0000 1111 1111 '']]"
proof -
  let ?data = "[Num 0, Num 65535, Num 65535, Num 255]"
  have c: "console (handleRead config_js readmeNames (stubClient [] ?data) ''0x03'' ''4 4'')
        = [requestEcho ''0x03'' (Num 4) (Num 4),
           ConsoleTable (map (registerRow config_js readmeNames ''0x03'' (Num 4))
                           (enumerate 0 ?data))]"
    by (rule register_table [OF readme_prompt]) (simp_all add: stubClient_def)
  show ?thesis
    unfolding c readme_echo by (simp add: readme_rows readme_rows_65535)
qed

text \<open>
  Claim C1: for all four register classes, values delivered beyond the requested
  quantity are cut off, so that the number of rows equals the quantity. The coil and
  discrete-input branch does this (\<^verbatim>\<open>data.data.slice(0, quantity)\<close>, ``pick only the
  requested quantity''); the register branch maps over all of \<^verbatim>\<open>data.data\<close>. Reading
  2 holding registers from address 4 on a transport that delivers 3 values prints
  3 rows.
\<close>

theorem register_read_not_truncated:
  "handleRead config_js noNames (stubClient [] [Num 1, Num 2, Num 3]) ''0x03'' ''4 2''
   = \<lparr>calls = [ReadHoldingRegisters (Num 4) (Num 2)],
      console =
        [requestEcho ''0x03'' (Num 2) (Num 4),
         ConsoleTable
           [RegisterRow ''HR5'' ''0x0004'' [] (Num 1) ''0x0001'' ''0000 0000 0000 0001 '',
            RegisterRow ''HR6'' ''0x0005'' [] (Num 2) ''0x0002'' ''0000 0000 0000 0010 '',
            RegisterRow ''HR7'' ''0x0006'' [] (Num 3) ''0x0003'' ''0000 0000 0000 0011 '']]\<rparr>"
  by code_simp

lemma natToString_nonempty: "natToString R n \<noteq> []"
  by (subst natToString.simps) simp

lemma natToString_16_long:
  assumes "65536 \<le> n"
  shows "5 \<le> length (natToString 16 n)"
proof -
  let ?a = "n div 16" let ?b = "n div 16 div 16" let ?c = "n div 16 div 16 div 16"
  have "16 \<le> n" "16 \<le> ?a" "16 \<le> ?b" "16 \<le> ?c"
    using assms by (simp_all add: div_mult2_eq [symmetric])
  then have "length (natToString 16 n) = length (natToString 16 (?c div 16)) + 4"
    using natToString_16_step [of n] natToString_16_step [of ?a]
      natToString_16_step [of ?b] natToString_16_step [of ?c]
    by simp
  moreover have "1 \<le> length (natToString 16 (?c div 16))"
    using natToString_nonempty [of 16 "?c div 16"] by (simp add: Suc_le_eq)
  ultimately show ?thesis by linarith
qed

lemma toHex_long:
  assumes "65536 \<le> n"
  shows "7 \<le> length (toHex (Num (int n)))"
  using natToString_16_long [OF assms]
  by (simp add: toHex_def padStart_def toUpperCase_def)

text \<open>Reading two holding registers from address 65535, cell by cell.\<close>

lemma top_prompt: "readPrompt config_js ''65535 2'' = (Num 65535, Num 2)"
proof -
  have s: "splitWhitespace (trim ''65535 2'') = [''65535'', ''2'']" by code_simp
  have v: "parseValue ''65535'' = Num 65535" "parseValue ''2'' = Num 2"
    by (simp_all add: parse_eval)
  show ?thesis by (simp add: readPrompt_def Let_def s v)
qed

lemma noNames_name: "getRegisterName noNames functionCode address = []"
  by (simp add: getRegisterName_def noNames_def truthyName_def Let_def)

lemma top_cells:
  "numberToString (Num 65536) 10 = ''65536''"
  "numberToString (Num 65537) 10 = ''65537''"
  "toHex (Num 65536) = ''0x10000''"
  by (simp_all add: toHex_def natToString.simps digitChar_def padStart_def
      toUpperCase_def toUpperChar_def)

lemma small_cells:
  "toHex (Num 1) = ''0x0001''" "toHex (Num 2) = ''0x0002''"
  "toBinaryWithSpaces (Num 1) = ''0000 0000 0000 0001 ''"
  "toBinaryWithSpaces (Num 2) = ''0000 0000 0000 0010 ''"
  by code_simp+

lemma top_rows:
  "registerRow config_js noNames ''0x03'' (Num 65535) (0, Num 1)
   = RegisterRow ''HR65536'' ''0xFFFF'' [] (Num 1) ''0x0001'' ''0000 0000 0000 0001 ''"
  "registerRow config_js noNames ''0x03'' (Num 65535) (Suc 0, Num 2)
   = RegisterRow ''HR65537'' ''0x10000'' [] (Num 2) ''0x0002'' ''0000 0000 0000 0010 ''"
  by (simp_all add: registerRow_def Let_def config_js_def convertEndianness_BIG upper_BIG
      toHex_65535 top_cells small_cells noNames_name del: numberToString.simps)

text \<open>
  Claim C6, as stated: the address of every row is the form of four hexadecimal digits.
  \<open>toHex\<close> pads to at least four digits and cuts nothing: reading two holding
  registers from address 65535, the second row has the address 65536, shown with five
  digits as \<open>0x10000\<close>.
\<close>

theorem register_read_rows_counterexample:
  "console (handleRead config_js noNames (stubClient [] [Num 1, Num 2]) ''0x03'' ''65535 2'')
   = [requestEcho ''0x03'' (Num 2) (Num 65535),
      ConsoleTable
        [RegisterRow ''HR65536'' ''0xFFFF'' [] (Num 1) ''0x0001'' ''0000 0000 0000 0001 '',
         RegisterRow ''HR65537'' ''0x10000'' [] (Num 2) ''0x0002'' ''0000 0000 0000 0010 '']]"
proof -
  let ?data = "[Num 1, Num 2]"
  have c: "console (handleRead config_js noNames (stubClient [] ?data) ''0x03'' ''65535 2'')
        = [requestEcho ''0x03'' (Num 2) (Num 65535),
           ConsoleTable (map (registerRow config_js noNames ''0x03'' (Num 65535))
                           (enumerate 0 ?data))]"
    by (rule register_table [OF top_prompt]) (simp_all add: stubClient_def)
  show ?thesis
    unfolding c by (simp add: top_rows)
qed

text \<open>
  Claim C6, amended. For a read of holding or input registers from a non-negative
  \<open>startAddress\<close> (with \<open>startAddress\<close> plus the number of values at most \<open>2 ^ 53\<close>, so
  that JavaScript adds exactly), there is one row per value delivered, and the row at
  index \<open>i\<close> has the register id made of the class prefix (\<open>HR\<close> or \<open>IR\<close>) and the
  decimal numeral of \<open>startAddress + i + 1\<close>, and the address \<open>toHex (startAddress + i)\<close>:
  \<open>0x\<close> followed by the upper-case hexadecimal numeral, zero-padded to four digits for
  an address up to 65535 and of five or more digits above. Unless the mode is LITTLE
  (so in mode BIG) the decimal value shown is the raw value. Reading 4 holding
  registers from address 4 with the raw values 0, 65535, 65535, 255 gives the table of
  the example session in README.md: ids \<open>HR5\<close> to \<open>HR8\<close>, addresses \<open>0x0004\<close> to
  \<open>0x0007\<close>.
\<close>

theorem register_read_rows:
  assumes rp: "readPrompt cfg answer = (Num startAddress, quantity)"
    and fc: "functionCode = ''0x03'' \<or> functionCode = ''0x04''"
    and r3: "functionCode = ''0x03'' \<longrightarrow>
               readHoldingRegisters cl (Num startAddress) quantity = Inr data"
    and r4: "functionCode = ''0x04'' \<longrightarrow>
               readInputRegisters cl (Num startAddress) quantity = Inr data"
    and nonneg: "0 \<le> startAddress"
    and exact: "startAddress + int (length data) \<le> 2 ^ 53" "exactNumber quantity"
  shows
  "(\<exists>rows. console (handleRead cfg nm cl functionCode answer)
             = [requestEcho functionCode quantity (Num startAddress), ConsoleTable rows]
      \<and> length rows = length data
      \<and> (\<forall>i < length data.
            Reg (rows ! i) = (if functionCode = ''0x03'' then ''HR'' else ''IR'')
                             @ numberToString (Num (startAddress + int i + 1)) 10
          \<and> Addr (rows ! i) = toHex (Num (startAddress + int i))
          \<and> (startAddress + int i < 65536 \<longrightarrow>
               Addr (rows ! i) = ''0x'' @ hex4 (nat (startAddress + int i)))
          \<and> (65536 \<le> startAddress + int i \<longrightarrow> 7 \<le> length (Addr (rows ! i)))
          \<and> (toUpperCase (ENDIANNESS cfg) \<noteq> ''LITTLE'' \<longrightarrow>
               Decimal (rows ! i) = data ! i)))
   \<and> console (handleRead config_js readmeNames
        (stubClient [] [Num 0, Num 65535, Num 65535, Num 255]) ''0x03'' ''4 4'')
      = [ConsoleLog [CHR 0x22 # ''Read Holding Registers'' @ CHR 0x22
                     # '' 4 registers from 0x0004.''],
         ConsoleTable
           [RegisterRow ''HR5'' ''0x0004'' ''CALIBRATE_SENSOR'' (Num 0)
              ''0x0000'' ''0000 0000 0000 0000 '',
            RegisterRow ''HR6'' ''0x0005'' ''SYS_AUTOSTART_TIME'' (Num 65535)
              ''0xFFFF'' ''1111 1111 1111 1111 '',
            RegisterRow ''HR7'' ''0x0006'' ''SYS_AUTOSTOP_TIME'' (Num 65535)
              ''0xFFFF'' ''1111 1111 1111 1111 '',
            RegisterRow ''HR8'' ''0x0007'' ''SYS_SAVE_SETTINGS'' (Num 255)
              ''0x00FF'' ''0000 0000 1111 1111 '']]"
proof -
  let ?rows = "map (registerRow cfg nm functionCode (Num startAddress)) (enumerate 0 data)"
  have c: "console (handleRead cfg nm cl functionCode answer)
             = [requestEcho functionCode quantity (Num startAddress), ConsoleTable ?rows]"
    by (rule register_table [OF rp fc r3 r4])
  have l: "length ?rows = length data" by simp
  have row: "?rows ! i = registerRow cfg nm functionCode (Num startAddress) (i, data ! i)"
    if "i < length data" for i
    using that by (simp add: nth_enumerate_eq)
  have hex: "toHex (Num (startAddress + int i)) = ''0x'' @ hex4 (nat (startAddress + int i))"
    if "startAddress + int i < 65536" for i
  proof -
    have "nat (startAddress + int i) < 65536" using that by simp
    from toHex_hex4 [OF this] show ?thesis using nonneg by simp
  qed
  have long: "7 \<le> length (toHex (Num (startAddress + int i)))"
    if "65536 \<le> startAddress + int i" for i
  proof -
    have "65536 \<le> nat (startAddress + int i)" using that by simp
    from toHex_long [OF this] show ?thesis using nonneg by simp
  qed
  have "\<forall>i < length data.
            Reg (?rows ! i) = (if functionCode = ''0x03'' then ''HR'' else ''IR'')
                             @ numberToString (Num (startAddress + int i + 1)) 10
          \<and> Addr (?rows ! i) = toHex (Num (startAddress + int i))
          \<and> (startAddress + int i < 65536 \<longrightarrow>
               Addr (?rows ! i) = ''0x'' @ hex4 (nat (startAddress + int i)))
          \<and> (65536 \<le> startAddress + int i \<longrightarrow> 7 \<le> length (Addr (?rows ! i)))
          \<and> (toUpperCase (ENDIANNESS cfg) \<noteq> ''LITTLE'' \<longrightarrow>
               Decimal (?rows ! i) = data ! i)"
  proof (intro allI impI)
    fix i
    assume i: "i < length data"
    show "Reg (?rows ! i) = (if functionCode = ''0x03'' then ''HR'' else ''IR'')
                             @ numberToString (Num (startAddress + int i + 1)) 10
          \<and> Addr (?rows ! i) = toHex (Num (startAddress + int i))
          \<and> (startAddress + int i < 65536 \<longrightarrow>
               Addr (?rows ! i) = ''0x'' @ hex4 (nat (startAddress + int i)))
          \<and> (65536 \<le> startAddress + int i \<longrightarrow> 7 \<le> length (Addr (?rows ! i)))
          \<and> (toUpperCase (ENDIANNESS cfg) \<noteq> ''LITTLE'' \<longrightarrow>
               Decimal (?rows ! i) = data ! i)"
      unfolding row [OF i] registerRow_fields
      using hex [of i] long [of i]
      by (simp add: convertEndianness_BIG del: numberToString.simps)
  qed
  with c l have 1: "\<exists>rows. console (handleRead cfg nm cl functionCode answer)
             = [requestEcho functionCode quantity (Num startAddress), ConsoleTable rows]
      \<and> length rows = length data
      \<and> (\<forall>i < length data.
            Reg (rows ! i) = (if functionCode = ''0x03'' then ''HR'' else ''IR'')
                             @ numberToString (Num (startAddress + int i + 1)) 10
          \<and> Addr (rows ! i) = toHex (Num (startAddress + int i))
          \<and> (startAddress + int i < 65536 \<longrightarrow>
               Addr (rows ! i) = ''0x'' @ hex4 (nat (startAddress + int i)))
          \<and> (65536 \<le> startAddress + int i \<longrightarrow> 7 \<le> length (Addr (rows ! i)))
          \<and> (toUpperCase (ENDIANNESS cfg) \<noteq> ''LITTLE'' \<longrightarrow>
               Decimal (rows ! i) = data ! i))"
    by blast
  from 1 readme_table show ?thesis by (rule conjI)
qed

theorem register_read_rows_witness:
  "\<exists>rows. console (handleRead config_js readmeNames
             (stubClient [] [Num 0, Num 65535, Num 65535, Num 255]) ''0x03'' ''4 4'')
           = [requestEcho ''0x03'' (Num 4) (Num 4), ConsoleTable rows]
         \<and> length rows = 4
         \<and> Reg (rows ! 1) = ''HR6''
         \<and> Addr (rows ! 1) = ''0x0005''
         \<and> Addr (rows ! 1) = ''0x'' @ hex4 5
         \<and> Decimal (rows ! 1) = Num 65535"
proof -
  let ?data = "[Num 0, Num 65535, Num 65535, Num 255]"
  have fc: "''0x03'' = ''0x03'' \<or> ''0x03'' = ''0x04''" by simp
  have r3: "''0x03'' = ''0x03'' \<longrightarrow>
      readHoldingRegisters (stubClient [] ?data) (Num 4) (Num 4) = Inr ?data"
    by (simp add: stubClient_def)
  have r4: "''0x03'' = ''0x04'' \<longrightarrow>
      readInputRegisters (stubClient [] ?data) (Num 4) (Num 4) = Inr ?data"
    by simp
  have n: "(0::int) \<le> 4" by simp
  have x: "4 + int (length ?data) \<le> 2 ^ 53" "exactNumber (Num 4)" by simp_all
  from register_read_rows [OF readme_prompt fc r3 r4 n x, of readmeNames, THEN conjunct1]
  obtain rows where
    c: "console (handleRead config_js readmeNames (stubClient [] ?data) ''0x03'' ''4 4'')
          = [requestEcho ''0x03'' (Num 4) (Num 4), ConsoleTable rows]"
    and l: "length rows = length ?data"
    and a: "\<forall>i < length ?data.
            Reg (rows ! i) = (if ''0x03'' = ''0x03'' then ''HR'' else ''IR'')
                             @ numberToString (Num (4 + int i + 1)) 10
          \<and> Addr (rows ! i) = toHex (Num (4 + int i))
          \<and> (4 + int i < 65536 \<longrightarrow>
               Addr (rows ! i) = ''0x'' @ hex4 (nat (4 + int i)))
          \<and> (65536 \<le> 4 + int i \<longrightarrow> 7 \<le> length (Addr (rows ! i)))
          \<and> (toUpperCase (ENDIANNESS config_js) \<noteq> ''LITTLE'' \<longrightarrow>
               Decimal (rows ! i) = ?data ! i)"
    by blast
  have e: "toUpperCase (ENDIANNESS config_js) \<noteq> ''LITTLE''"
    by (simp add: config_js_def upper_BIG)
  have "(1::nat) < length ?data" by simp
  with a have "Reg (rows ! 1) = (if ''0x03'' = ''0x03'' then ''HR'' else ''IR'')
                             @ numberToString (Num (4 + int 1 + 1)) 10
          \<and> Addr (rows ! 1) = toHex (Num (4 + int 1))
          \<and> (4 + int 1 < 65536 \<longrightarrow>
               Addr (rows ! 1) = ''0x'' @ hex4 (nat (4 + int 1)))
          \<and> (toUpperCase (ENDIANNESS config_js) \<noteq> ''LITTLE'' \<longrightarrow>
               Decimal (rows ! 1) = ?data ! 1)"
    by blast
  with e have "Reg (rows ! 1) = ''HR6'' \<and> Addr (rows ! 1) = ''0x0005''
      \<and> Addr (rows ! 1) = ''0x'' @ hex4 5 \<and> Decimal (rows ! 1) = Num 65535"
    by (simp add: readme_cells hex4_def hexDigitUpper_def del: numberToString.simps)
  with c l show ?thesis by auto
qed

section \<open>Name resolution\<close>

lemma toUpperChar_idem: "toUpperChar (toUpperChar c) = toUpperChar c"
proof (cases "97 \<le> (of_char c :: nat) \<and> (of_char c :: nat) \<le> 122")
  case True
  let ?n = "of_char c :: nat"
  have u: "toUpperChar c = char_of (?n - 32)"
    using True by (simp add: toUpperChar_def Let_def)
  have "?n - 32 < 256" using True by linarith
  then have m: "(?n - 32) mod 256 = ?n - 32" by (rule mod_less)
  have n: "\<not> 97 \<le> ?n - 32" using True by linarith
  show ?thesis
    unfolding u using n by (simp add: toUpperChar_def Let_def m)
next
  case False
  then have u: "toUpperChar c = c" by (auto simp: toUpperChar_def Let_def)
  show ?thesis by (simp only: u)
qed

lemma toUpperCase_idem: "toUpperCase (toUpperCase s) = toUpperCase s"
  by (simp add: toUpperCase_def toUpperChar_idem)

lemma upper_x:
  "toUpperChar CHR ''x'' = CHR ''X''" "toUpperChar CHR ''X'' = CHR ''X''"
  by code_simp+

lemma upper_prefix:
  "toUpperCase (''0x'' @ ds) = ''0X'' @ toUpperCase ds"
  "toUpperCase (''0X'' @ ds) = ''0X'' @ toUpperCase ds"
  by (simp_all add: toUpperCase_def upper_x upper_zero)

lemma replaceFirst_prefix: "replaceFirst ''0X'' ''0x'' (''0X'' @ rest) = ''0x'' @ rest"
  by (simp add: startsWith_def)

lemma normalizeAddress_prefixed:
  "normalizeAddress (''0x'' @ ds) = ''0x'' @ toUpperCase ds"
  "normalizeAddress (''0X'' @ ds) = ''0x'' @ toUpperCase ds"
  unfolding normalizeAddress_def upper_prefix replaceFirst_prefix by simp_all

lemma normalizeAddress_toHex: "normalizeAddress (toHex x) = toHex x"
  unfolding toHex_def normalizeAddress_prefixed toUpperCase_idem by simp

lemma truthyName_lookup:
  "(case truthyName T k of Some n \<Rightarrow> n | None \<Rightarrow> [])
   = (case T of None \<Rightarrow> [] | Some t \<Rightarrow> (case t k of None \<Rightarrow> [] | Some n \<Rightarrow> n))"
  by (simp add: truthyName_def split: option.splits)

text \<open>
  Claim C3, as stated: the name bound to an address is returned whatever the casing of
  the key in the table, for instance a key written \<open>0X0004\<close> or with lower-case
  hexadecimal digits. Only the queried address is normalized; the keys of the table are
  looked up as they are written, so neither of the two entries below is found.
\<close>

theorem getRegisterName_casing_counterexample:
  "the (HOLDING_REGISTER_NAMES mixedCaseNames) ''0X0004'' = Some ''CALIBRATE_SENSOR''
   \<and> getRegisterName mixedCaseNames ''0x03'' (toHex (Num 4)) = []
   \<and> the (HOLDING_REGISTER_NAMES mixedCaseNames) ''0x000a'' = Some ''SETPOINT''
   \<and> getRegisterName mixedCaseNames ''0x03'' (toHex (Num 10)) = []"
  by code_simp

text \<open>
  Claim C3, amended. Name resolution normalizes the queried address (upper case, with
  the prefix written \<open>0x\<close>; an address computed by \<open>toHex\<close> is already in that form) and
  returns the name bound to exactly that normalized key in the table of the register
  class. The keys of the table are not normalized, so the table has to be written with
  canonical keys. A missing entry, a disabled table and a function code that is no read
  code yield the empty string, never an error.
\<close>

theorem getRegisterName_lookup:
  "getRegisterName nm functionCode address =
     (case classTable nm functionCode of
        None \<Rightarrow> []
      | Some t \<Rightarrow> (case t (normalizeAddress address) of None \<Rightarrow> [] | Some n \<Rightarrow> n))
   \<and> normalizeAddress (''0x'' @ ds) = ''0x'' @ toUpperCase ds
   \<and> normalizeAddress (''0X'' @ ds) = ''0x'' @ toUpperCase ds
   \<and> normalizeAddress (toHex x) = toHex x"
proof -
  have "getRegisterName nm functionCode address =
     (case classTable nm functionCode of
        None \<Rightarrow> []
      | Some t \<Rightarrow> (case t (normalizeAddress address) of None \<Rightarrow> [] | Some n \<Rightarrow> n))"
    by (simp add: getRegisterName_def classTable_def Let_def truthyName_lookup)
  then show ?thesis
    by (simp only: normalizeAddress_prefixed normalizeAddress_toHex simp_thms)
qed

end
